theory Spec2Isabelle
  imports Main "HOL-Library.Word"
begin

section \<open>Strings of the page\<close>

text \<open>
  A JavaScript string is a sequence of UTF-16 code units. The Korean literals of
  \<^verbatim>\<open>apps/web/src/app/resumes/page.tsx\<close> are written out as their code units;
  runs of Basic Latin are written with \<open>ascii\<close>.
\<close>

type_synonym jsstring = "16 word list"

definition ascii :: "string \<Rightarrow> jsstring" where
  "ascii s = map of_char s"

text \<open>
  \<^verbatim>\<open>String.prototype.toLowerCase\<close>, as far as the tests of the page can see it. The
  keys that the page looks for are made of the letters a to z and of Hangul syllables.
  The built-in sends A to Z to a to z, the Kelvin sign U+212A to k and U+0130 to i
  followed by U+0307; it keeps a to z and the Hangul syllables. These are all the
  characters whose image holds a letter a to z or a Hangul syllable, and the built-in
  deletes no character. Every other code unit is kept here; the built-in may put other
  code units in its place, none of them part of a key, so that a key occurs in the
  result of the built-in exactly when it occurs here.
\<close>

definition lowerUnit :: "16 word \<Rightarrow> jsstring" where
  "lowerUnit c =
    (if 0x41 \<le> c \<and> c \<le> 0x5A then [c + 0x20]
     else if c = 0x212A then [0x6B]
     else if c = 0x0130 then [0x69, 0x0307]
     else [c])"

definition toLowerCase :: "jsstring \<Rightarrow> jsstring" where
  "toLowerCase s = concat (map lowerUnit s)"

text \<open>\<^verbatim>\<open>String.prototype.includes\<close>: the key occurs as a contiguous run of code units.\<close>

fun startsWith :: "jsstring \<Rightarrow> jsstring \<Rightarrow> bool" where
  "startsWith s [] = True"
| "startsWith [] (k # ks) = False"
| "startsWith (x # xs) (k # ks) = (x = k \<and> startsWith xs ks)"

fun includesStr :: "jsstring \<Rightarrow> jsstring \<Rightarrow> bool" where
  "includesStr [] k = startsWith [] k"
| "includesStr (x # xs) k = (startsWith (x # xs) k \<or> includesStr xs k)"

text \<open>\<^verbatim>\<open>Array.prototype.slice(start, end)\<close> for \<open>0 \<le> start \<le> end\<close>, and \<^verbatim>\<open>Array.prototype.join\<close>.\<close>

definition slice :: "nat \<Rightarrow> nat \<Rightarrow> 'a list \<Rightarrow> 'a list" where
  "slice start stop xs = take (stop - start) (drop start xs)"

fun join :: "jsstring \<Rightarrow> jsstring list \<Rightarrow> jsstring" where
  "join sep [] = []"
| "join sep [x] = x"
| "join sep (x # y # ys) = x @ sep @ join sep (y # ys)"

section \<open>Data model\<close>

text \<open>
  \<^verbatim>\<open>interface Resume\<close> (lines 7 to 15). The fields \<^verbatim>\<open>id\<close> and \<^verbatim>\<open>score\<close> are named
  \<open>resume_id\<close> and \<open>resume_score\<close> here; \<^verbatim>\<open>score: number | null\<close> and the optional
  \<^verbatim>\<open>fileSize\<close> are options.
\<close>

record Resume =
  resume_id :: jsstring
  filename :: jsstring
  targetRole :: jsstring
  resume_score :: "int option"
  hasAnalysis :: bool
  createdAt :: jsstring
  fileSize :: "jsstring option"

text \<open>The value that \<^verbatim>\<open>generateAnalysisResult\<close> returns (lines 314 to 348).\<close>

datatype status = good | needs_improvement

record sectionResult =
  score :: int
  status :: status
  feedback :: jsstring

record sectionMap =
  ats_friendly :: sectionResult
  impact_metrics :: sectionResult
  keyword_match :: sectionResult
  readability :: sectionResult
  format :: sectionResult

record writingTip =
  category :: jsstring
  tip :: jsstring
  example :: jsstring
  reason :: jsstring

record analysis =
  overall_score :: int
  sections :: sectionMap
  writingTips :: "writingTip list"

section \<open>Role detection (lines 177 to 189)\<close>

definition lcFilename :: "Resume \<Rightarrow> jsstring" where
  "lcFilename resume = toLowerCase (filename resume)"

definition lcTargetRole :: "Resume \<Rightarrow> jsstring" where
  "lcTargetRole resume = toLowerCase (targetRole resume)"

text \<open>
  The Hangul keys, in the order of the source: peu-ron-teu (front), baeg-en-deu (backend),
  seo-beo (server), pul-seu-taeg (full stack), de-i-teo (data), bun-seog (analysis),
  un-yeong (operations), in-peu-ra (infrastructure).
\<close>

definition isFrontend :: "Resume \<Rightarrow> bool" where
  "isFrontend resume =
    (includesStr (lcFilename resume) [0xD504, 0xB860, 0xD2B8] \<or>
     includesStr (lcFilename resume) (ascii ''front'') \<or>
     includesStr (lcTargetRole resume) [0xD504, 0xB860, 0xD2B8] \<or>
     includesStr (lcTargetRole resume) (ascii ''front'') \<or>
     includesStr (lcTargetRole resume) (ascii ''react''))"

definition isBackend :: "Resume \<Rightarrow> bool" where
  "isBackend resume =
    (includesStr (lcFilename resume) [0xBC31, 0xC5D4, 0xB4DC] \<or>
     includesStr (lcFilename resume) (ascii ''back'') \<or>
     includesStr (lcTargetRole resume) [0xBC31, 0xC5D4, 0xB4DC] \<or>
     includesStr (lcTargetRole resume) (ascii ''back'') \<or>
     includesStr (lcTargetRole resume) [0xC11C, 0xBC84])"

definition isFullstack :: "Resume \<Rightarrow> bool" where
  "isFullstack resume =
    (includesStr (lcFilename resume) [0xD480, 0xC2A4, 0xD0DD] \<or>
     includesStr (lcFilename resume) (ascii ''full'') \<or>
     includesStr (lcTargetRole resume) [0xD480, 0xC2A4, 0xD0DD] \<or>
     includesStr (lcTargetRole resume) (ascii ''full''))"

definition isData :: "Resume \<Rightarrow> bool" where
  "isData resume =
    (includesStr (lcFilename resume) [0xB370, 0xC774, 0xD130] \<or>
     includesStr (lcFilename resume) (ascii ''data'') \<or>
     includesStr (lcTargetRole resume) [0xB370, 0xC774, 0xD130] \<or>
     includesStr (lcTargetRole resume) (ascii ''data'') \<or>
     includesStr (lcTargetRole resume) [0xBD84, 0xC11D])"

definition isDevOps :: "Resume \<Rightarrow> bool" where
  "isDevOps resume =
    (includesStr (lcTargetRole resume) (ascii ''devops'') \<or>
     includesStr (lcTargetRole resume) [0xC6B4, 0xC601] \<or>
     includesStr (lcTargetRole resume) [0xC778, 0xD504, 0xB77C])"

section \<open>Writing tips (lines 192 to 299)\<close>

text \<open>
  The five arrays that \<^verbatim>\<open>getWritingTips\<close> returns, one per branch. Three of them
  interpolate \<^verbatim>\<open>resume.targetRole\<close>: the first reason of the frontend and backend
  arrays and the second tip of the array of the last branch.
\<close>

definition frontendTips :: "Resume \<Rightarrow> writingTip list" where
  "frontendTips resume =
    [\<lparr>category = [0xAE30, 0xC220, 0x0020, 0xC2A4, 0xD0DD, 0x0020, 0xC791, 0xC131, 0xBC95],
      tip = ascii ''React, TypeScript, Next.js'' @ [0x0020, 0xB4F1, 0x0020, 0xAD6C, 0xCCB4, 0xC801,
        0xC778, 0x0020, 0xAE30, 0xC220, 0xBA85, 0xC744, 0x0020, 0xB098, 0xC5F4, 0xD558,
        0xC138, 0xC694],
      example = [0x0022, 0xC6F9, 0x0020, 0xAC1C, 0xBC1C, 0x0020, 0xACBD, 0xD5D8, 0x0022, 0x0020, 0x2192,
        0x0020, 0x0022] @ ascii ''React, TypeScript, Next.js'' @ [0xB97C, 0x0020, 0xD65C,
        0xC6A9, 0xD55C, 0x0020] @ ascii ''SPA'' @ [0x0020, 0xAC1C, 0xBC1C, 0x0020, 0x0033,
        0xB144, 0x0020, 0xACBD, 0xB825, 0x0022],
      reason = targetRole resume @ [0x0020, 0xC9C1, 0xBB34, 0xC5D0, 0xC11C, 0x0020, 0xAE30, 0xC220,
        0x0020, 0xC2A4, 0xD0DD, 0x0020, 0xBA85, 0xC2DC, 0xB294, 0x0020, 0xD544, 0xC218,
        0xC785, 0xB2C8, 0xB2E4]\<rparr>,
     \<lparr>category = [0xC131, 0xACFC, 0x0020, 0xC218, 0xCE58, 0xD654],
      tip = [0xC131, 0xB2A5, 0x0020, 0xAC1C, 0xC120, 0x002C, 0x0020, 0xC0AC, 0xC6A9, 0xC790, 0x0020,
        0xC9C0, 0xD45C, 0x0020, 0xB4F1, 0xC744, 0x0020, 0xC218, 0xCE58, 0xB85C, 0x0020,
        0xD45C, 0xD604, 0xD558, 0xC138, 0xC694],
      example = [0x0022] @ ascii ''UI'' @ [0x0020, 0xAC1C, 0xC120, 0x0022, 0x0020, 0x2192, 0x0020, 0x0022] @
        ascii ''Core Web Vitals LCP 2.5s'' @ [0x2192] @ ascii ''1.2s'' @ [0x0020, 0xAC1C,
        0xC120, 0x002C, 0x0020, 0xC774, 0xD0C8, 0xB960, 0x0020] @ ascii ''25%'' @ [0x0020,
        0xAC10, 0xC18C, 0x0022],
      reason = [0xC218, 0xCE58, 0xAC00, 0x0020, 0xC788, 0xC73C, 0xBA74, 0x0020, 0xC784, 0xD329, 0xD2B8,
        0xAC00, 0x0020, 0xBA85, 0xD655, 0xD574, 0xC9D1, 0xB2C8, 0xB2E4]\<rparr>,
     \<lparr>category = [0xD504, 0xB85C, 0xC81D, 0xD2B8, 0x0020, 0xADDC, 0xBAA8],
      tip = ascii ''DAU, MAU,'' @ [0x0020, 0xD2B8, 0xB798, 0xD53D, 0x0020, 0xB4F1, 0x0020, 0xC11C,
        0xBE44, 0xC2A4, 0x0020, 0xADDC, 0xBAA8, 0xB97C, 0x0020, 0xBA85, 0xC2DC, 0xD558,
        0xC138, 0xC694],
      example = [0x0022, 0xC6F9, 0x0020, 0xC11C, 0xBE44, 0xC2A4, 0x0020, 0xAC1C, 0xBC1C, 0x0022, 0x0020,
        0x2192, 0x0020, 0x0022, 0xC6D4, 0x0020] @ ascii ''10'' @ [0xB9CC, 0x0020] @
        ascii ''DAU'' @ [0x0020, 0xC11C, 0xBE44, 0xC2A4, 0xC758, 0x0020, 0xD504, 0xB860,
        0xD2B8, 0xC5D4, 0xB4DC, 0x0020, 0xC124, 0xACC4, 0x0020, 0xBC0F, 0x0020, 0xAC1C,
        0xBC1C, 0x0022],
      reason = [0xADDC, 0xBAA8, 0xB97C, 0x0020, 0xC5B8, 0xAE09, 0xD558, 0xBA74, 0x0020, 0xACBD, 0xD5D8,
        0xC758, 0x0020, 0xAE4A, 0xC774, 0xB97C, 0x0020, 0xBCF4, 0xC5EC, 0xC904, 0x0020,
        0xC218, 0x0020, 0xC788, 0xC2B5, 0xB2C8, 0xB2E4]\<rparr>]"

definition backendTips :: "Resume \<Rightarrow> writingTip list" where
  "backendTips resume =
    [\<lparr>category = [0xAE30, 0xC220, 0x0020, 0xC2A4, 0xD0DD, 0x0020, 0xC791, 0xC131, 0xBC95],
      tip = [0xC5B8, 0xC5B4, 0x002C, 0x0020, 0xD504, 0xB808, 0xC784, 0xC6CC, 0xD06C] @ ascii '', DB,'' @
        [0x0020, 0xC778, 0xD504, 0xB77C, 0xB97C, 0x0020, 0xAD6C, 0xCCB4, 0xC801, 0xC73C,
        0xB85C, 0x0020, 0xB098, 0xC5F4, 0xD558, 0xC138, 0xC694],
      example = [0x0022, 0xC11C, 0xBC84, 0x0020, 0xAC1C, 0xBC1C, 0x0022, 0x0020, 0x2192, 0x0020, 0x0022] @
        ascii ''Node.js, PostgreSQL, Redis, Docker'' @ [0x0020, 0xAE30, 0xBC18, 0x0020,
        0xBC31, 0xC5D4, 0xB4DC, 0x0020, 0xC2DC, 0xC2A4, 0xD15C, 0x0020, 0xAD6C, 0xCD95,
        0x0022],
      reason = targetRole resume @ [0x0020, 0xC9C1, 0xBB34, 0xC5D0, 0xC11C, 0x0020, 0xAE30, 0xC220,
        0x0020, 0xC2A4, 0xD0DD, 0x0020, 0xBA85, 0xC2DC, 0xB294, 0x0020, 0xD544, 0xC218,
        0xC785, 0xB2C8, 0xB2E4]\<rparr>,
     \<lparr>category = [0xC131, 0xB2A5, 0x0020, 0xAC1C, 0xC120, 0x0020, 0xC131, 0xACFC],
      tip = ascii ''API'' @ [0x0020, 0xC751, 0xB2F5, 0xC2DC, 0xAC04, 0x002C, 0x0020, 0xCC98, 0xB9AC,
        0xB7C9, 0x0020, 0xB4F1, 0x0020, 0xC131, 0xB2A5, 0x0020, 0xC9C0, 0xD45C, 0xB97C,
        0x0020, 0xC218, 0xCE58, 0xB85C, 0x0020, 0xD45C, 0xD604, 0xD558, 0xC138, 0xC694],
      example = [0x0022] @ ascii ''API'' @ [0x0020, 0xAC1C, 0xBC1C, 0x0022, 0x0020, 0x2192, 0x0020,
        0x0022] @ ascii ''API'' @ [0x0020, 0xC751, 0xB2F5, 0xC2DC, 0xAC04, 0x0020] @
        ascii ''200ms'' @ [0x2192] @ ascii ''50ms'' @ [0x0020, 0xAC1C, 0xC120, 0x0020] @
        ascii ''(75%'' @ [0x0020, 0xD5A5, 0xC0C1, 0x0029, 0x0022],
      reason = [0xBC31, 0xC5D4, 0xB4DC, 0xB294, 0x0020, 0xC131, 0xB2A5, 0x0020, 0xC218, 0xCE58, 0xAC00,
        0x0020, 0xD575, 0xC2EC, 0x0020, 0xC5ED, 0xB7C9, 0x0020, 0xC9C0, 0xD45C, 0xC785,
        0xB2C8, 0xB2E4]\<rparr>,
     \<lparr>category = [0xD2B8, 0xB798, 0xD53D, 0x002F, 0xB370, 0xC774, 0xD130, 0x0020, 0xADDC, 0xBAA8],
      tip = [0xCC98, 0xB9AC, 0xD55C, 0x0020, 0xB370, 0xC774, 0xD130, 0xB098, 0x0020, 0xD2B8, 0xB798,
        0xD53D, 0x0020, 0xADDC, 0xBAA8, 0xB97C, 0x0020, 0xC5B8, 0xAE09, 0xD558, 0xC138,
        0xC694],
      example = [0x0022] @ ascii ''DB'' @ [0x0020, 0xAD00, 0xB9AC, 0x0022, 0x0020, 0x2192, 0x0020, 0x0022,
        0xC77C, 0x0020, 0x0031, 0xC5B5, 0xAC74, 0x0020, 0xD2B8, 0xB798, 0xD53D, 0xC744,
        0x0020, 0xCC98, 0xB9AC, 0xD558, 0xB294, 0x0020] @ ascii ''DB'' @ [0x0020, 0xCFFC,
        0xB9AC, 0x0020, 0xCD5C, 0xC801, 0xD654, 0x0022],
      reason = [0xADDC, 0xBAA8, 0xB97C, 0x0020, 0xC5B8, 0xAE09, 0xD558, 0xBA74, 0x0020, 0xB300, 0xC6A9,
        0xB7C9, 0x0020, 0xC2DC, 0xC2A4, 0xD15C, 0x0020, 0xACBD, 0xD5D8, 0xC744, 0x0020,
        0xC99D, 0xBA85, 0xD560, 0x0020, 0xC218, 0x0020, 0xC788, 0xC2B5, 0xB2C8, 0xB2E4]\<rparr>]"

definition fullstackTips :: "Resume \<Rightarrow> writingTip list" where
  "fullstackTips resume =
    [\<lparr>category = [0xD480, 0xC2A4, 0xD0DD, 0x0020, 0xC5ED, 0xB7C9, 0x0020, 0xD45C, 0xD604],
      tip = [0xD504, 0xB860, 0xD2B8, 0xC5D4, 0xB4DC, 0x002C, 0x0020, 0xBC31, 0xC5D4, 0xB4DC, 0x0020,
        0xAE30, 0xC220, 0xC744, 0x0020, 0xBAA8, 0xB450, 0x0020, 0xBA85, 0xC2DC, 0xD558,
        0xC138, 0xC694],
      example = [0x0022, 0xC6F9, 0x0020, 0xAC1C, 0xBC1C, 0x0022, 0x0020, 0x2192, 0x0020, 0x0022] @
        ascii ''React + Node.js + PostgreSQL'' @ [0x0020, 0xAE30, 0xBC18, 0x0020, 0xD480,
        0xC2A4, 0xD0DD, 0x0020, 0xC11C, 0xBE44, 0xC2A4, 0x0020, 0xAC1C, 0xBC1C, 0x0022],
      reason = [0xD480, 0xC2A4, 0xD0DD, 0xC740, 0x0020, 0xC591, 0xCABD, 0x0020, 0xAE30, 0xC220, 0x0020,
        0xC2A4, 0xD0DD, 0xC744, 0x0020, 0xBAA8, 0xB450, 0x0020, 0xBCF4, 0xC5EC, 0xC918,
        0xC57C, 0x0020, 0xD569, 0xB2C8, 0xB2E4]\<rparr>,
     \<lparr>category = [0xC885, 0xD569, 0xC801, 0x0020, 0xC131, 0xACFC],
      tip = [0xC11C, 0xBE44, 0xC2A4, 0x0020, 0xC804, 0xCCB4, 0xB97C, 0x0020, 0xB2F4, 0xB2F9, 0xD55C,
        0x0020, 0xACBD, 0xD5D8, 0xC744, 0x0020, 0xAC15, 0xC870, 0xD558, 0xC138, 0xC694],
      example = [0x0022, 0xC11C, 0xBE44, 0xC2A4, 0x0020, 0xAC1C, 0xBC1C, 0x0022, 0x0020, 0x2192, 0x0020,
        0x0022, 0x0030, 0x2192, 0x0031, 0x0020, 0xC11C, 0xBE44, 0xC2A4, 0x0020, 0xAD6C,
        0xCD95, 0xBD80, 0xD130, 0x0020] @ ascii ''MAU 5'' @ [0xB9CC, 0x0020, 0xB2EC, 0xC131,
        0xAE4C, 0xC9C0, 0x0020, 0xC804, 0x0020, 0xACFC, 0xC815, 0x0020, 0xC8FC, 0xB3C4,
        0x0022],
      reason = [0xD480, 0xC2A4, 0xD0DD, 0xC758, 0x0020, 0xAC00, 0xCE58, 0xB294, 0x0020, 0xC804, 0xCCB4,
        0xB97C, 0x0020, 0xBCFC, 0x0020, 0xC218, 0x0020, 0xC788, 0xB2E4, 0xB294, 0x0020,
        0xC810, 0xC785, 0xB2C8, 0xB2E4]\<rparr>,
     \<lparr>category = [0x0031, 0xC778, 0x0020, 0xAC1C, 0xBC1C, 0x0020, 0xC5ED, 0xB7C9],
      tip = [0xB3C5, 0xB9BD, 0xC801, 0xC73C, 0xB85C, 0x0020, 0xC644, 0xC218, 0xD55C, 0x0020, 0xD504,
        0xB85C, 0xC81D, 0xD2B8, 0xB97C, 0x0020, 0xAC15, 0xC870, 0xD558, 0xC138, 0xC694],
      example = [0x0022, 0xAC1C, 0xBC1C, 0x0020, 0xB2F4, 0xB2F9, 0x0022, 0x0020, 0x2192, 0x0020, 0x0022] @
        ascii ''FE/BE/'' @ [0xC778, 0xD504, 0xB77C, 0xB97C, 0x0020, 0xC544, 0xC6B0, 0xB974,
        0xB294, 0x0020, 0x0031, 0xC778, 0x0020, 0xAC1C, 0xBC1C, 0xB85C, 0x0020] @
        ascii ''MVP 2'' @ [0xC8FC, 0x0020, 0xB0B4, 0x0020, 0xCD9C, 0xC2DC, 0x0022],
      reason = [0xC790, 0xAE30, 0xC8FC, 0xB3C4, 0xC801, 0x0020, 0xAC1C, 0xBC1C, 0x0020, 0xB2A5, 0xB825,
        0xC744, 0x0020, 0xBCF4, 0xC5EC, 0xC904, 0x0020, 0xC218, 0x0020, 0xC788, 0xC2B5,
        0xB2C8, 0xB2E4]\<rparr>]"

definition dataTips :: "Resume \<Rightarrow> writingTip list" where
  "dataTips resume =
    [\<lparr>category = [0xBD84, 0xC11D, 0x0020, 0xB3C4, 0xAD6C, 0x0020, 0xBA85, 0xC2DC],
      tip = [0xC0AC, 0xC6A9, 0xD55C, 0x0020, 0xBD84, 0xC11D, 0x0020, 0xB3C4, 0xAD6C, 0xC640, 0x0020,
        0xC5B8, 0xC5B4, 0xB97C, 0x0020, 0xAD6C, 0xCCB4, 0xC801, 0xC73C, 0xB85C, 0x0020,
        0xB098, 0xC5F4, 0xD558, 0xC138, 0xC694],
      example = [0x0022, 0xB370, 0xC774, 0xD130, 0x0020, 0xBD84, 0xC11D, 0x0022, 0x0020, 0x2192, 0x0020,
        0x0022] @ ascii ''Python, SQL, Pandas, Scikit-learn'' @ [0xC73C, 0xB85C, 0x0020] @
        ascii ''ML'' @ [0x0020, 0xBAA8, 0xB378, 0x0020, 0xAC1C, 0xBC1C, 0x0022],
      reason = [0xB370, 0xC774, 0xD130, 0x0020, 0xC9C1, 0xBB34, 0xB294, 0x0020, 0xB3C4, 0xAD6C, 0x0020,
        0xC219, 0xB828, 0xB3C4, 0xAC00, 0x0020, 0xC911, 0xC694, 0xD569, 0xB2C8, 0xB2E4]\<rparr>,
     \<lparr>category = [0xBE44, 0xC988, 0xB2C8, 0xC2A4, 0x0020, 0xC784, 0xD329, 0xD2B8],
      tip = [0xBD84, 0xC11D, 0x0020, 0xACB0, 0xACFC, 0xAC00, 0x0020, 0xBE44, 0xC988, 0xB2C8, 0xC2A4,
        0xC5D0, 0x0020, 0xBBF8, 0xCE5C, 0x0020, 0xC601, 0xD5A5, 0xC744, 0x0020, 0xC218,
        0xCE58, 0xB85C, 0x0020, 0xD45C, 0xD604, 0xD558, 0xC138, 0xC694],
      example = [0x0022, 0xBD84, 0xC11D, 0x0020, 0xC5C5, 0xBB34, 0x0022, 0x0020, 0x2192, 0x0020, 0x0022,
        0xC774, 0xD0C8, 0x0020, 0xC608, 0xCE21, 0x0020, 0xBAA8, 0xB378, 0xB85C, 0x0020,
        0xB9C8, 0xCF00, 0xD305, 0x0020, 0xBE44, 0xC6A9, 0x0020] @ ascii ''30%'' @ [0x0020,
        0xC808, 0xAC10, 0xC5D0, 0x0020, 0xAE30, 0xC5EC, 0x0022],
      reason = [0xBD84, 0xC11D, 0xC758, 0x0020, 0xAC00, 0xCE58, 0xB294, 0x0020, 0xBE44, 0xC988, 0xB2C8,
        0xC2A4, 0x0020, 0xC131, 0xACFC, 0xB85C, 0x0020, 0xC99D, 0xBA85, 0xB429, 0xB2C8,
        0xB2E4]\<rparr>,
     \<lparr>category = [0xB370, 0xC774, 0xD130, 0x0020, 0xADDC, 0xBAA8],
      tip = [0xCC98, 0xB9AC, 0xD55C, 0x0020, 0xB370, 0xC774, 0xD130, 0xC758, 0x0020, 0xADDC, 0xBAA8,
        0xB97C, 0x0020, 0xC5B8, 0xAE09, 0xD558, 0xC138, 0xC694],
      example = [0x0022] @ ascii ''ETL'' @ [0x0020, 0xAD6C, 0xCD95, 0x0022, 0x0020, 0x2192, 0x0020, 0x0022,
        0xC77C, 0x0020] @ ascii ''500GB'' @ [0x0020, 0xB370, 0xC774, 0xD130, 0x0020, 0xCC98,
        0xB9AC, 0xD558, 0xB294, 0x0020, 0xD30C, 0xC774, 0xD504, 0xB77C, 0xC778, 0x0020,
        0xC124, 0xACC4, 0x0020, 0xBC0F, 0x0020, 0xC790, 0xB3D9, 0xD654, 0x0022],
      reason = [0xB300, 0xC6A9, 0xB7C9, 0x0020, 0xB370, 0xC774, 0xD130, 0x0020, 0xCC98, 0xB9AC, 0x0020,
        0xACBD, 0xD5D8, 0xC744, 0x0020, 0xBCF4, 0xC5EC, 0xC904, 0x0020, 0xC218, 0x0020,
        0xC788, 0xC2B5, 0xB2C8, 0xB2E4]\<rparr>]"

definition generalTips :: "Resume \<Rightarrow> writingTip list" where
  "generalTips resume =
    [\<lparr>category = [0xC131, 0xACFC, 0x0020, 0xC218, 0xCE58, 0xD654],
      tip = [0xBAA8, 0xB4E0, 0x0020, 0xC131, 0xACFC, 0xC5D0, 0x0020, 0xC218, 0xCE58, 0xB97C, 0x0020,
        0xBD99, 0xC5EC, 0xBCF4, 0xC138, 0xC694],
      example = [0x0022, 0xD504, 0xB85C, 0xC81D, 0xD2B8, 0x0020, 0xC218, 0xD589, 0x0022, 0x0020, 0x2192,
        0x0020, 0x0022, 0xC0AC, 0xC6A9, 0xC790, 0x0020, 0xC218, 0x0020] @ ascii ''50%'' @
        [0x0020, 0xC99D, 0xAC00, 0xC5D0, 0x0020, 0xAE30, 0xC5EC, 0xD55C, 0x0020, 0xD575,
        0xC2EC, 0x0020, 0xAE30, 0xB2A5, 0x0020, 0xAC1C, 0xBC1C, 0x0020, 0xB9AC, 0xB4DC,
        0x0022],
      reason = [0xC218, 0xCE58, 0xAC00, 0x0020, 0xC5C6, 0xB294, 0x0020, 0xC131, 0xACFC, 0xB294, 0x0020,
        0xC784, 0xD329, 0xD2B8, 0xAC00, 0x0020, 0xC57D, 0xD574, 0x0020, 0xBCF4, 0xC785,
        0xB2C8, 0xB2E4]\<rparr>,
     \<lparr>category = [0xAE30, 0xC220, 0x0020, 0xC2A4, 0xD0DD, 0x0020, 0xAD6C, 0xCCB4, 0xD654],
      tip = targetRole resume @ [0xC5D0, 0x0020, 0xD544, 0xC694, 0xD55C, 0x0020, 0xD575, 0xC2EC,
        0x0020, 0xAE30, 0xC220, 0xC744, 0x0020, 0xAD6C, 0xCCB4, 0xC801, 0xC73C, 0xB85C,
        0x0020, 0xB098, 0xC5F4, 0xD558, 0xC138, 0xC694],
      example = [0x0022, 0xB2E4, 0xC591, 0xD55C, 0x0020, 0xAE30, 0xC220, 0x0020, 0xD65C, 0xC6A9, 0x0022,
        0x0020, 0x2192, 0x0020, 0x0022] @ ascii ''Python, SQL, Excel VBA'' @ [0x0020,
        0xB4F1, 0x0020, 0xC5C5, 0xBB34, 0x0020, 0xC790, 0xB3D9, 0xD654, 0x0020, 0xB3C4,
        0xAD6C, 0x0020, 0xD65C, 0xC6A9, 0x0022],
      reason = [0xAD6C, 0xCCB4, 0xC801, 0xC778, 0x0020, 0xAE30, 0xC220, 0xBA85, 0xC774, 0x0020, 0xD0A4,
        0xC6CC, 0xB4DC, 0x0020, 0xB9E4, 0xCE6D, 0xC5D0, 0x0020, 0xC720, 0xB9AC, 0xD569,
        0xB2C8, 0xB2E4]\<rparr>,
     \<lparr>category = [0xACBD, 0xD5D8, 0x0020, 0xAD6C, 0xCCB4, 0xD654],
      tip = [0xCD94, 0xC0C1, 0xC801, 0xC778, 0x0020, 0xD45C, 0xD604, 0x0020, 0xB300, 0xC2E0, 0x0020,
        0xAD6C, 0xCCB4, 0xC801, 0xC778, 0x0020, 0xACBD, 0xD5D8, 0xC744, 0x0020, 0xC791,
        0xC131, 0xD558, 0xC138, 0xC694],
      example = [0x0022, 0xC5F4, 0xC815, 0xC801, 0xC73C, 0xB85C, 0x0020, 0xC77C, 0xD568, 0x0022, 0x0020,
        0x2192, 0x0020, 0x0022, 0x0033, 0xB144, 0xAC04, 0x0020, 0xC2A4, 0xD0C0, 0xD2B8,
        0xC5C5, 0xC5D0, 0xC11C, 0x0020, 0x0030, 0x2192, 0x0031, 0x0020, 0xC81C, 0xD488,
        0x0020, 0xAC1C, 0xBC1C, 0x0020, 0x0033, 0xD68C, 0x0020, 0xC644, 0xC218, 0x0022],
      reason = [0xAD6C, 0xCCB4, 0xC801, 0xC778, 0x0020, 0xACBD, 0xD5D8, 0xC774, 0x0020, 0xC2E0, 0xB8B0,
        0xB3C4, 0xB97C, 0x0020, 0xB192, 0xC785, 0xB2C8, 0xB2E4]\<rparr>]"

definition getWritingTips :: "Resume \<Rightarrow> writingTip list" where
  "getWritingTips resume =
    (if isFrontend resume then frontendTips resume
     else if isBackend resume then backendTips resume
     else if isFullstack resume then fullstackTips resume
     else if isData resume then dataTips resume
     else generalTips resume)"

section \<open>Role keywords (lines 302 to 309)\<close>

definition getRoleKeywords :: "Resume \<Rightarrow> jsstring list" where
  "getRoleKeywords resume =
    (if isFrontend resume then
       [ascii ''React'', ascii ''TypeScript'', ascii ''Next.js'', ascii ''CSS'',
        ascii ''JavaScript'', ascii ''HTML'']
     else if isBackend resume then
       [ascii ''Node.js'', ascii ''Python'', ascii ''SQL'', ascii ''API'', ascii ''Docker'',
        ascii ''AWS'']
     else if isFullstack resume then
       [ascii ''React'', ascii ''Node.js'', ascii ''TypeScript'', ascii ''PostgreSQL'',
        ascii ''Docker'']
     else if isData resume then
       [ascii ''Python'', ascii ''SQL'', ascii ''Pandas'', ascii ''ML'',
        [0xB370, 0xC774, 0xD130, 0xBD84, 0xC11D], ascii ''Tableau'']
     else if isDevOps resume then
       [ascii ''Docker'', ascii ''Kubernetes'', ascii ''AWS'', ascii ''CI/CD'',
        ascii ''Terraform'', ascii ''Linux'']
     else
       [[0xD611, 0xC5C5], [0xBB38, 0xC81C, 0xD574, 0xACB0],
        [0xCEE4, 0xBBA4, 0xB2C8, 0xCF00, 0xC774, 0xC158], [0xAE30, 0xD68D], [0xBD84, 0xC11D]])"

section \<open>The analysis result (lines 311 to 348)\<close>

text \<open>
  The random numbers are inputs. Each of the six calls of \<^verbatim>\<open>Math.random()\<close> occurs in
  an expression \<^verbatim>\<open>Math.floor(Math.random() * n)\<close>, and \<open>rnd k\<close> is the value of the
  \<open>k\<close>-th of these expressions, an integer: \<open>rnd 0\<close> for the base score (\<open>n = 20\<close>),
  then \<open>rnd 1\<close> to \<open>rnd 5\<close> for the sections from \<^verbatim>\<open>ats_friendly\<close> to \<^verbatim>\<open>format\<close>
  (\<open>n = 10, 15, 12, 15, 8\<close>), in the order in which the source evaluates them.
  \<^verbatim>\<open>Math.random()\<close> returns a double that is at least 0 and less than 1, and its
  product with \<open>n\<close>, rounded to a double, is at least 0 and less than \<open>n\<close>: the value
  of the expression lies between \<open>0\<close> and \<open>n - 1\<close>, which is what \<open>randomOk\<close> says.
\<close>

definition randomOk :: "(nat \<Rightarrow> int) \<Rightarrow> bool" where
  "randomOk rnd =
    (0 \<le> rnd 0 \<and> rnd 0 < 20 \<and> 0 \<le> rnd 1 \<and> rnd 1 < 10 \<and> 0 \<le> rnd 2 \<and> rnd 2 < 15
     \<and> 0 \<le> rnd 3 \<and> rnd 3 < 12 \<and> 0 \<le> rnd 4 \<and> rnd 4 < 15 \<and> 0 \<le> rnd 5 \<and> rnd 5 < 8)"

definition baseScore :: "(nat \<Rightarrow> int) \<Rightarrow> int" where
  "baseScore rnd = 62 + rnd 0"

text \<open>The fixed Korean sentences of the feedback fields, and the three pieces of the
  template of the \<^verbatim>\<open>keyword_match\<close> feedback (line 332).\<close>

definition atsFeedback :: jsstring where
  "atsFeedback =
    ascii ''PDF'' @ [0x0020, 0xD615, 0xC2DD, 0xC758, 0x0020, 0xC774, 0xB825, 0xC11C, 0xB85C,
      0x0020] @ ascii ''ATS'' @ [0x0020, 0xC2DC, 0xC2A4, 0xD15C, 0xC5D0, 0xC11C, 0x0020,
      0xD30C, 0xC2F1, 0xC774, 0x0020, 0xC798, 0x0020, 0xB429, 0xB2C8, 0xB2E4, 0x002E,
      0x0020, 0xD45C, 0xC900, 0xD654, 0xB41C, 0x0020, 0xC139, 0xC158, 0x0020, 0xAD6C,
      0xBD84, 0xC744, 0x0020, 0xC0AC, 0xC6A9, 0xD558, 0xC138, 0xC694, 0x002E]"

definition impactGood :: jsstring where
  "impactGood =
    [0xC131, 0xACFC, 0xAC00, 0x0020, 0xC218, 0xCE58, 0xC640, 0x0020, 0xD568, 0xAED8, 0x0020,
      0xC798, 0x0020, 0xD45C, 0xD604, 0xB418, 0xC5B4, 0x0020, 0xC788, 0xC2B5, 0xB2C8,
      0xB2E4, 0x002E, 0x0020, 0xB354, 0x0020, 0xAD6C, 0xCCB4, 0xC801, 0xC778, 0x0020,
      0xBE44, 0xC988, 0xB2C8, 0xC2A4, 0x0020, 0xC784, 0xD329, 0xD2B8, 0xB97C, 0x0020,
      0xCD94, 0xAC00, 0xD558, 0xBA74, 0x0020, 0xC88B, 0xC2B5, 0xB2C8, 0xB2E4, 0x002E]"

definition impactNeeds :: jsstring where
  "impactNeeds =
    [0xC131, 0xACFC, 0xB97C, 0x0020, 0xC218, 0xCE58, 0xB85C, 0x0020, 0xD45C, 0xD604, 0xD558,
      0xC138, 0xC694, 0x002E, 0x0020, 0x0022, 0xB9E4, 0xCD9C, 0x0020, 0xC99D, 0xAC00,
      0x0022, 0xBCF4, 0xB2E4, 0x0020, 0x0022, 0xB9E4, 0xCD9C, 0x0020] @ ascii ''30%'' @
      [0x0020, 0xC99D, 0xAC00, 0x0022, 0xAC00, 0x0020, 0xD6E8, 0xC52C, 0x0020, 0xC784,
      0xD329, 0xD2B8, 0x0020, 0xC788, 0xC2B5, 0xB2C8, 0xB2E4, 0x002E]"

definition keywordsLead :: jsstring where
  "keywordsLead =
    [0x0020, 0xC9C1, 0xBB34, 0xC640, 0x0020, 0xAD00, 0xB828, 0xB41C, 0x0020, 0xD575, 0xC2EC,
      0x0020, 0xD0A4, 0xC6CC, 0xB4DC, 0x0028]"

definition keywordsPresent :: jsstring where
  "keywordsPresent =
    [0x0029, 0xAC00, 0x0020, 0xD3EC, 0xD568, 0xB418, 0xC5B4, 0x0020, 0xC788, 0xC2B5, 0xB2C8,
      0xB2E4, 0x002E, 0x0020]"

definition keywordsRecommended :: jsstring where
  "keywordsRecommended =
    [0x0020, 0xD0A4, 0xC6CC, 0xB4DC, 0x0020, 0xCD94, 0xAC00, 0xB97C, 0x0020, 0xAD8C, 0xC7A5,
      0xD569, 0xB2C8, 0xB2E4, 0x002E]"

definition readabilityGood :: jsstring where
  "readabilityGood =
    [0xBB38, 0xC7A5, 0xC774, 0x0020, 0xAC04, 0xACB0, 0xD558, 0xACE0, 0x0020, 0xC77D, 0xAE30,
      0x0020, 0xC27D, 0xAC8C, 0x0020, 0xC791, 0xC131, 0xB418, 0xC5B4, 0x0020, 0xC788,
      0xC2B5, 0xB2C8, 0xB2E4, 0x002E]"

definition readabilityNeeds :: jsstring where
  "readabilityNeeds =
    [0xBB38, 0xC7A5, 0xC744, 0x0020, 0xB354, 0x0020, 0xAC04, 0xACB0, 0xD558, 0xAC8C, 0x0020,
      0xC791, 0xC131, 0xD558, 0xC138, 0xC694, 0x002E, 0x0020, 0xD55C, 0x0020, 0xBB38,
      0xC7A5, 0xC5D0, 0x0020, 0xD575, 0xC2EC, 0x0020, 0xC815, 0xBCF4, 0x0020, 0xD558,
      0xB098, 0xB9CC, 0x0020, 0xB2F4, 0xB294, 0x0020, 0xAC83, 0xC774, 0x0020, 0xC88B,
      0xC2B5, 0xB2C8, 0xB2E4, 0x002E]"

definition formatFeedback :: jsstring where
  "formatFeedback =
    [0xB808, 0xC774, 0xC544, 0xC6C3, 0xC774, 0x0020, 0xAE54, 0xB054, 0xD558, 0xAC8C, 0x0020,
      0xC815, 0xB3C8, 0xB418, 0xC5B4, 0x0020, 0xC788, 0xC2B5, 0xB2C8, 0xB2E4, 0x002E,
      0x0020, 0xAE00, 0xBA38, 0xB9AC, 0x0020, 0xAE30, 0xD638, 0xB97C, 0x0020, 0xD65C,
      0xC6A9, 0xD558, 0xBA74, 0x0020, 0xAC00, 0xB3C5, 0xC131, 0xC774, 0x0020, 0xB354,
      0x0020, 0xB192, 0xC544, 0xC9D1, 0xB2C8, 0xB2E4, 0x002E]"

definition generateAnalysisResult :: "(nat \<Rightarrow> int) \<Rightarrow> Resume \<Rightarrow> analysis" where
  "generateAnalysisResult rnd resume =
    (let base = baseScore rnd;
         keywords = getRoleKeywords resume
     in \<lparr>overall_score = base,
         sections =
           \<lparr>ats_friendly =
              \<lparr>score = min 100 (base + 8 + rnd 1),
               status = good,
               feedback = atsFeedback\<rparr>,
            impact_metrics =
              \<lparr>score = min 100 (base - 5 + rnd 2),
               status = (if base > 70 then good else needs_improvement),
               feedback = (if base > 70 then impactGood else impactNeeds)\<rparr>,
            keyword_match =
              \<lparr>score = min 100 (base + 5 + rnd 3),
               status = good,
               feedback =
                 targetRole resume @ keywordsLead @
                 join (ascii '', '') (slice 0 3 keywords) @ keywordsPresent @
                 join (ascii '', '') (slice 3 5 keywords) @ keywordsRecommended\<rparr>,
            readability =
              \<lparr>score = min 100 (base + rnd 4),
               status = (if base > 65 then good else needs_improvement),
               feedback = (if base > 65 then readabilityGood else readabilityNeeds)\<rparr>,
            format =
              \<lparr>score = min 100 (base + 10 + rnd 5),
               status = good,
               feedback = formatFeedback\<rparr>\<rparr>,
         writingTips = getWritingTips resume\<rparr>)"

section \<open>Role category\<close>

text \<open>
  The page keeps no category value. The category of a resume is the branch that the
  chain of tests in \<^verbatim>\<open>getRoleKeywords\<close> takes; the chain in \<^verbatim>\<open>getWritingTips\<close> is
  the same one without the DevOps test.
\<close>

datatype RoleCategory = Frontend | Backend | Fullstack | Data | DevOps | General

definition classify :: "Resume \<Rightarrow> RoleCategory" where
  "classify resume =
    (if isFrontend resume then Frontend
     else if isBackend resume then Backend
     else if isFullstack resume then Fullstack
     else if isData resume then Data
     else if isDevOps resume then DevOps
     else General)"

text \<open>
  Two strings are equal up to the case of their letters when they have the same length
  and, position by position, the same code unit or the capital and the small form of one
  letter from A to Z.
\<close>

definition sameLetter :: "16 word \<Rightarrow> 16 word \<Rightarrow> bool" where
  "sameLetter a b =
    (a = b \<or> (0x41 \<le> a \<and> a \<le> 0x5A \<and> b = a + 0x20)
     \<or> (0x41 \<le> b \<and> b \<le> 0x5A \<and> a = b + 0x20))"

definition caseVariant :: "jsstring \<Rightarrow> jsstring \<Rightarrow> bool" where
  "caseVariant s t = list_all2 sameLetter s t"

section \<open>Page state and handlers\<close>

text \<open>
  The \<^verbatim>\<open>useState\<close> cells of \<^verbatim>\<open>ResumesPage\<close> that the analysis and the deletion read
  or write (lines 33 to 52). \<^verbatim>\<open>analysisResults\<close> is an object keyed by resume id.
\<close>

record page =
  resumes :: "Resume list"
  selectedResume :: "jsstring option"
  isAnalyzing :: bool
  analysisProgress :: int
  analysisResults :: "jsstring \<rightharpoonup> analysis"

definition selectedResumeData :: "page \<Rightarrow> Resume option" where
  "selectedResumeData s =
    (case selectedResume s of
       None \<Rightarrow> None
     | Some i \<Rightarrow> find (\<lambda>r. resume_id r = i) (resumes s))"

text \<open>
  \<^verbatim>\<open>handleDeleteResume\<close> (lines 157 to 164); \<open>confirmed\<close> is the answer of the
  \<^verbatim>\<open>confirm\<close> dialog. In \<^verbatim>\<open>?.id || null\<close> an empty id counts as absent.
\<close>

definition handleDeleteResume :: "bool \<Rightarrow> jsstring \<Rightarrow> page \<Rightarrow> page" where
  "handleDeleteResume confirmed i s =
    (if confirmed then
       s\<lparr>resumes := filter (\<lambda>r. resume_id r \<noteq> i) (resumes s),
         selectedResume :=
           (if selectedResume s = Some i then
              (case find (\<lambda>r. resume_id r \<noteq> i) (resumes s) of
                 None \<Rightarrow> None
               | Some r \<Rightarrow> (if resume_id r = [] then None else Some (resume_id r)))
            else selectedResume s)\<rparr>
     else s)"

text \<open>
  \<^verbatim>\<open>handleStartAnalysis\<close> (lines 351 to 405) runs in pieces, each of them without
  interruption: the call itself up to the first \<^verbatim>\<open>await\<close> (lines 352 to 368); every
  callback of the interval (lines 357 to 363); the part after the timer of 3500 ms (lines
  370 to 396), which goes on to the second \<^verbatim>\<open>await\<close> or, when it throws, through the
  \<^verbatim>\<open>catch\<close> and \<^verbatim>\<open>finally\<close> blocks; and the \<^verbatim>\<open>finally\<close> block after the timer of
  500 ms (lines 401 to 404). The state updates of one piece are committed together: each
  function below gives the state after a piece from the state before it.
\<close>

datatype error = Error jsstring

definition analysisBegin :: "page \<Rightarrow> page" where
  "analysisBegin s = s\<lparr>isAnalyzing := True, analysisProgress := 0\<rparr>"

text \<open>
  The updater of the interval; \<open>d\<close> is the value of \<^verbatim>\<open>Math.floor(Math.random() * 8)\<close>,
  an integer from 0 to 7. An interval whose updater has seen a progress of 95 or more is
  cleared and has no further callback.
\<close>

definition progressTick :: "int \<Rightarrow> int \<Rightarrow> int" where
  "progressTick d prev = (if prev \<ge> 95 then prev else prev + d + 3)"

definition analysisTick :: "int \<Rightarrow> page \<Rightarrow> page" where
  "analysisTick d s = s\<lparr>analysisProgress := progressTick d (analysisProgress s)\<rparr>"

text \<open>The \<^verbatim>\<open>finally\<close> block (lines 401 to 404).\<close>

definition analysisFinally :: "page \<Rightarrow> page" where
  "analysisFinally s = s\<lparr>isAnalyzing := False, analysisProgress := 0\<rparr>"

text \<open>
  The part after the timer of 3500 ms. \<open>closure\<close> is the \<^verbatim>\<open>resumes\<close> array that the
  handler closed over when it was called; the setters update the current state \<open>s\<close>.
  When the resume is not found, \<^verbatim>\<open>Error('Resume not found')\<close> is thrown and caught, and
  the \<^verbatim>\<open>finally\<close> block runs in the same piece: the progress of 100 is never
  committed. The caught error is returned beside the state.
\<close>

definition analysisComplete ::
    "Resume list \<Rightarrow> (nat \<Rightarrow> int) \<Rightarrow> jsstring \<Rightarrow> page \<Rightarrow> error option \<times> page" where
  "analysisComplete closure rnd resumeId s =
    (let s1 = s\<lparr>analysisProgress := 100\<rparr>
     in case find (\<lambda>r. resume_id r = resumeId) closure of
          None \<Rightarrow> (Some (Error (ascii ''Resume not found'')), analysisFinally s1)
        | Some targetResume \<Rightarrow>
            (let result = generateAnalysisResult rnd targetResume
             in (None,
                 s1\<lparr>analysisResults := (analysisResults s1)(resumeId \<mapsto> result),
                    resumes :=
                      map (\<lambda>r. if resume_id r = resumeId
                               then r\<lparr>hasAnalysis := True,
                                      resume_score := Some (overall_score result)\<rparr>
                               else r)
                          (resumes s1)\<rparr>)))"

text \<open>
  The pieces as values, and the history of the page under a sequence of them: after each
  piece, the error it caught, if any, and the state it committed. Pieces of different
  calls may alternate in such a sequence.
\<close>

datatype callback =
    Begin
  | Tick int
  | Complete "Resume list" "nat \<Rightarrow> int" jsstring
  | Finally

fun step :: "callback \<Rightarrow> page \<Rightarrow> error option \<times> page" where
  "step Begin s = (None, analysisBegin s)"
| "step (Tick d) s = (None, analysisTick d s)"
| "step (Complete closure rnd resumeId) s = analysisComplete closure rnd resumeId s"
| "step Finally s = (None, analysisFinally s)"

fun runCallbacks :: "callback list \<Rightarrow> page \<Rightarrow> (error option \<times> page) list" where
  "runCallbacks [] s = []"
| "runCallbacks (c # cs) s = step c s # runCallbacks cs (snd (step c s))"

text \<open>
  The interval fires every 400 ms and is cleared when the timer of 3500 ms resolves
  (lines 364 to 370): at most \<open>3500 div 400\<close> of its callbacks run.
\<close>

definition ticksBeforeTimeout :: nat where
  "ticksBeforeTimeout = 3500 div 400"

text \<open>
  The pieces of one call of \<^verbatim>\<open>handleStartAnalysis\<close>, made in state \<open>s\<close>, in the order
  in which they run. \<open>ticks\<close> holds the random values of the interval callbacks, \<open>rnd\<close>
  those of \<^verbatim>\<open>generateAnalysisResult\<close>. The last piece exists when the resume is found.
\<close>

definition handleStartAnalysis ::
    "(nat \<Rightarrow> int) \<Rightarrow> int list \<Rightarrow> jsstring \<Rightarrow> page \<Rightarrow> callback list" where
  "handleStartAnalysis rnd ticks resumeId s =
    Begin # map Tick (take ticksBeforeTimeout ticks)
    @ [Complete (resumes s) rnd resumeId]
    @ (case find (\<lambda>r. resume_id r = resumeId) (resumes s) of
         None \<Rightarrow> []
       | Some targetResume \<Rightarrow> [Finally])"

text \<open>
  One call with no piece of another call in between. That is every call that the page
  makes: it calls the handler from the start button only, which it renders when
  \<^verbatim>\<open>isAnalyzing\<close> is false, and a call sets \<^verbatim>\<open>isAnalyzing\<close> back in its last piece.
\<close>

definition soloRun ::
    "(nat \<Rightarrow> int) \<Rightarrow> int list \<Rightarrow> jsstring \<Rightarrow> page \<Rightarrow> (error option \<times> page) list" where
  "soloRun rnd ticks resumeId s = runCallbacks (handleStartAnalysis rnd ticks resumeId s) s"

text \<open>The progress values of the committed states in which an analysis is in progress.\<close>

definition runProgress :: "(error option \<times> page) list \<Rightarrow> int list" where
  "runProgress history = map analysisProgress (filter isAnalyzing (map snd history))"

section \<open>The report panel (lines 494 to 611)\<close>

text \<open>
  The step line under the progress bar (lines 583 to 589): five conditional strings,
  each rendered when its condition holds. In order they say: parsing the resume, ATS
  compatibility check, impact analysis, keyword matching analysis, generating
  improvement suggestions.
\<close>

definition stepParsing :: jsstring where
  "stepParsing =
    [0xD83D, 0xDCC4, 0x0020, 0xC774, 0xB825, 0xC11C, 0x0020, 0xD30C, 0xC2F1, 0x0020, 0xC911,
      0x002E, 0x002E, 0x002E]"

definition stepAts :: jsstring where
  "stepAts =
    [0xD83D, 0xDD0D, 0x0020] @ ascii ''ATS'' @ [0x0020, 0xD638, 0xD658, 0xC131, 0x0020, 0xAC80,
      0xC0AC, 0x0020, 0xC911, 0x002E, 0x002E, 0x002E]"

definition stepImpact :: jsstring where
  "stepImpact =
    [0xD83D, 0xDCCA, 0x0020, 0xC784, 0xD329, 0xD2B8, 0x0020, 0xBD84, 0xC11D, 0x0020, 0xC911,
      0x002E, 0x002E, 0x002E]"

definition stepKeywords :: jsstring where
  "stepKeywords =
    [0xD83D, 0xDD11, 0x0020, 0xD0A4, 0xC6CC, 0xB4DC, 0x0020, 0xB9E4, 0xCE6D, 0x0020, 0xBD84,
      0xC11D, 0x0020, 0xC911, 0x002E, 0x002E, 0x002E]"

definition stepTips :: jsstring where
  "stepTips =
    [0x2728, 0x0020, 0xAC1C, 0xC120, 0x0020, 0xC81C, 0xC548, 0x0020, 0xC0DD, 0xC131, 0x0020,
      0xC911, 0x002E, 0x002E, 0x002E]"

definition analysisStep :: "int \<Rightarrow> jsstring" where
  "analysisStep p =
    (if p < 20 then stepParsing else []) @
    (if p \<ge> 20 \<and> p < 40 then stepAts else []) @
    (if p \<ge> 40 \<and> p < 60 then stepImpact else []) @
    (if p \<ge> 60 \<and> p < 80 then stepKeywords else []) @
    (if p \<ge> 80 then stepTips else [])"

text \<open>
  Which of the four alternatives of the panel is rendered: the report, the progress bar
  with its step line, the button that calls \<^verbatim>\<open>handleStartAnalysis\<close> with the id of the
  selected resume, or the empty panel.
\<close>

datatype reportPanel =
    ReportShown
  | AnalyzingShown int jsstring
  | StartButton jsstring
  | EmptyReport

definition reportSection :: "page \<Rightarrow> reportPanel" where
  "reportSection s =
    (case selectedResumeData s of
       Some r \<Rightarrow>
         (if hasAnalysis r then ReportShown
          else if isAnalyzing s
               then AnalyzingShown (analysisProgress s) (analysisStep (analysisProgress s))
               else StartButton (resume_id r))
     | None \<Rightarrow> EmptyReport)"

section \<open>Inputs used in the examples\<close>

text \<open>The two resumes and the state that the page starts with (lines 33 to 52).\<close>

definition resume1 :: Resume where
  "resume1 =
    \<lparr>resume_id = ascii ''1'',
     filename = [0xC774, 0xB825, 0xC11C, 0x005F, 0xD504, 0xB860, 0xD2B8, 0xC5D4, 0xB4DC] @
       ascii ''_2024.pdf'',
     targetRole = ascii ''Frontend Engineer'',
     resume_score = Some 72, hasAnalysis = True,
     createdAt = ascii ''2024-01-10'', fileSize = Some (ascii ''245 KB'')\<rparr>"

definition resume2 :: Resume where
  "resume2 =
    \<lparr>resume_id = ascii ''2'',
     filename = [0xC774, 0xB825, 0xC11C, 0x005F, 0xD480, 0xC2A4, 0xD0DD] @ ascii ''_2024.pdf'',
     targetRole = ascii ''Full Stack Developer'',
     resume_score = None, hasAnalysis = False,
     createdAt = ascii ''2024-01-05'', fileSize = Some (ascii ''312 KB'')\<rparr>"

definition initialPage :: page where
  "initialPage =
    \<lparr>resumes = [resume1, resume2], selectedResume = Some (ascii ''1''),
     isAnalyzing = False, analysisProgress = 0, analysisResults = Map.empty\<rparr>"

text \<open>A resume as the upload creates it (lines 127 to 135), with a given file name and
  target role.\<close>

definition uploaded :: "jsstring \<Rightarrow> jsstring \<Rightarrow> Resume" where
  "uploaded name role =
    \<lparr>resume_id = ascii ''1700000000000'', filename = name, targetRole = role,
     resume_score = None, hasAnalysis = False,
     createdAt = ascii ''2024-01-15'', fileSize = Some (ascii ''1.0 KB'')\<rparr>"

text \<open>
  Random values: the ones that a random number of one half gives at each of the six
  calls; and ones with a base score of 65, the largest value for the impact section and
  the smallest for the others.
\<close>

definition halves :: "nat \<Rightarrow> int" where
  "halves k =
    (if k = 0 then 10 else if k = 1 then 5 else if k = 2 then 7 else if k = 3 then 6
     else if k = 4 then 7 else 4)"

definition lowBase :: "nat \<Rightarrow> int" where
  "lowBase k = (if k = 0 then 3 else if k = 2 then 14 else 0)"

text \<open>An uploaded resume whose file name contains both the Hangul key of the frontend
  test and that of the backend test.\<close>

definition bothKeys :: Resume where
  "bothKeys =
    uploaded
      ([0xC774, 0xB825, 0xC11C, 0x005F, 0xD504, 0xB860, 0xD2B8, 0xC5D4, 0xB4DC, 0x005F,
        0xBC31, 0xC5D4, 0xB4DC] @ ascii ''.pdf'')
      (ascii ''Engineer'')"

text \<open>Uploaded resumes for a DevOps role and for two frontend roles that differ in the
  target role only.\<close>

definition devopsResume :: Resume where
  "devopsResume = uploaded (ascii ''cv.pdf'') (ascii ''DevOps Engineer'')"

definition reactResume :: Resume where
  "reactResume = uploaded (ascii ''cv.pdf'') (ascii ''react'')"

definition frontResume :: Resume where
  "frontResume = uploaded (ascii ''cv.pdf'') (ascii ''front'')"

text \<open>An uploaded resume whose target role is written with the Kelvin sign in the place
  of the letter k.\<close>

definition kelvinResume :: Resume where
  "kelvinResume =
    uploaded (ascii ''cv.pdf'') (ascii ''Bac'' @ [0x212A] @ ascii ''end Developer'')"

text \<open>
  An id that no resume of the initial page has; the initial page after a click on the
  second resume; that page while an analysis is in progress; the initial page with a
  stored result for the first resume; and the random values of eight interval callbacks,
  each the one that a random number of one half gives.
\<close>

definition missingId :: jsstring where
  "missingId = ascii ''404''"

definition secondSelected :: page where
  "secondSelected = initialPage\<lparr>selectedResume := Some (ascii ''2'')\<rparr>"

definition runningPage :: page where
  "runningPage = secondSelected\<lparr>isAnalyzing := True, analysisProgress := 14\<rparr>"

definition analysedPage :: page where
  "analysedPage =
    initialPage\<lparr>analysisResults := [ascii ''1'' \<mapsto> generateAnalysisResult halves resume1]\<rparr>"

definition eightTicks :: "int list" where
  "eightTicks = [4, 4, 4, 4, 4, 4, 4, 4]"

text \<open>
  Two calls of the handler for the second resume, the first at time 0 and the second at
  1000 ms, both closing over the resumes of the page with the second resume selected.
  The pieces in the order of their times: the first call and its callbacks at 400 and
  800 ms; the second call; twelve callbacks from 1200 to 3400 ms, of the two intervals in
  turn; the first call's timer at 3500 ms; the callback of the second interval at 3800
  ms, which sees a progress of 100 and is the last one of its interval; the first call's
  \<^verbatim>\<open>finally\<close> block at 4000 ms; the second call's timer at 4500 ms and its
  \<^verbatim>\<open>finally\<close> block at 5000 ms.
\<close>

definition overlappingCalls :: "callback list" where
  "overlappingCalls =
    [Begin, Tick 4, Tick 4,
     Begin,
     Tick 4, Tick 4, Tick 4, Tick 4, Tick 4, Tick 4, Tick 4, Tick 4, Tick 4, Tick 4, Tick 4,
     Tick 4,
     Complete (resumes secondSelected) halves (ascii ''2''),
     Tick 4,
     Finally,
     Complete (resumes secondSelected) halves (ascii ''2''),
     Finally]"

section \<open>Scores and statuses\<close>

lemma baseScore_range: "randomOk rnd \<Longrightarrow> 62 \<le> baseScore rnd \<and> baseScore rnd \<le> 81"
  by (simp add: randomOk_def baseScore_def)

text \<open>
  Claim C1, as the code has it. The sections \<^verbatim>\<open>ats_friendly\<close>, \<^verbatim>\<open>format\<close> and
  \<^verbatim>\<open>keyword_match\<close> always have status \<open>good\<close>. The status of \<^verbatim>\<open>impact_metrics\<close> is
  \<open>good\<close> exactly when the overall score (the base score) is greater than 70, and that
  of \<^verbatim>\<open>readability\<close> exactly when the overall score is greater than 65: the section's
  own score is not consulted.
\<close>

theorem status_by_base_score:
  "status (ats_friendly (sections (generateAnalysisResult rnd resume))) = good
   \<and> status (format (sections (generateAnalysisResult rnd resume))) = good
   \<and> status (keyword_match (sections (generateAnalysisResult rnd resume))) = good
   \<and> (status (impact_metrics (sections (generateAnalysisResult rnd resume))) = good
        \<longleftrightarrow> overall_score (generateAnalysisResult rnd resume) > 70)
   \<and> (status (readability (sections (generateAnalysisResult rnd resume))) = good
        \<longleftrightarrow> overall_score (generateAnalysisResult rnd resume) > 65)"
  by (simp add: generateAnalysisResult_def Let_def)

text \<open>
  Claim C1 as stated fails: with a base score of 65 the impact section can score 74 and
  the readability section 65, both at or above their thresholds of 70 and 65, while both
  statuses are \<open>needs_improvement\<close>.
\<close>

theorem status_by_own_score_counterexample:
  "score (impact_metrics (sections (generateAnalysisResult lowBase resume2))) \<ge> 70
   \<and> status (impact_metrics (sections (generateAnalysisResult lowBase resume2))) \<noteq> good
   \<and> score (readability (sections (generateAnalysisResult lowBase resume2))) \<ge> 65
   \<and> status (readability (sections (generateAnalysisResult lowBase resume2))) \<noteq> good"
  by (simp add: generateAnalysisResult_def Let_def baseScore_def lowBase_def)

text \<open>
  Claim C3. When the six random values are in their ranges, the overall score is the
  base draw, 62 plus the first value, and lies between 62 and 81; each section score is
  the smaller of 100 and the sum of the overall score, the offset of the section (8, -5,
  5, 0 and 10) and the random value of the section (below 10, 15, 12, 15 and 8); and each
  section score lies between 0 and 100.
\<close>

theorem scores_bounded:
  assumes "randomOk rnd"
  shows "overall_score (generateAnalysisResult rnd resume) = 62 + rnd 0
    \<and> 62 \<le> overall_score (generateAnalysisResult rnd resume)
    \<and> overall_score (generateAnalysisResult rnd resume) \<le> 81
    \<and> score (ats_friendly (sections (generateAnalysisResult rnd resume)))
        = min 100 (overall_score (generateAnalysisResult rnd resume) + 8 + rnd 1)
    \<and> score (impact_metrics (sections (generateAnalysisResult rnd resume)))
        = min 100 (overall_score (generateAnalysisResult rnd resume) - 5 + rnd 2)
    \<and> score (keyword_match (sections (generateAnalysisResult rnd resume)))
        = min 100 (overall_score (generateAnalysisResult rnd resume) + 5 + rnd 3)
    \<and> score (readability (sections (generateAnalysisResult rnd resume)))
        = min 100 (overall_score (generateAnalysisResult rnd resume) + rnd 4)
    \<and> score (format (sections (generateAnalysisResult rnd resume)))
        = min 100 (overall_score (generateAnalysisResult rnd resume) + 10 + rnd 5)
    \<and> (\<forall>sec \<in> {ats_friendly, impact_metrics, keyword_match, readability, format}.
          0 \<le> score (sec (sections (generateAnalysisResult rnd resume)))
          \<and> score (sec (sections (generateAnalysisResult rnd resume))) \<le> 100)"
proof -
  have b: "62 \<le> baseScore rnd" "baseScore rnd \<le> 81"
    using baseScore_range [OF assms] by simp_all
  have d: "0 \<le> rnd 1" "0 \<le> rnd 2" "0 \<le> rnd 3" "0 \<le> rnd 4" "0 \<le> rnd 5"
    using assms by (simp_all add: randomOk_def)
  show ?thesis
    using b d by (simp add: generateAnalysisResult_def Let_def baseScore_def)
qed

theorem scores_bounded_witness:
  "randomOk halves \<and> overall_score (generateAnalysisResult halves resume2) = 72
   \<and> score (ats_friendly (sections (generateAnalysisResult halves resume2))) = 85
   \<and> score (impact_metrics (sections (generateAnalysisResult halves resume2))) = 74
   \<and> score (keyword_match (sections (generateAnalysisResult halves resume2))) = 83
   \<and> score (readability (sections (generateAnalysisResult halves resume2))) = 79
   \<and> score (format (sections (generateAnalysisResult halves resume2))) = 86"
proof -
  have h: "randomOk halves" by (simp add: randomOk_def halves_def)
  show ?thesis
    using h scores_bounded [OF h, of resume2] by (simp add: halves_def)
qed

section \<open>Properties of the role detection\<close>

lemma startsWith_iff: "startsWith s k \<longleftrightarrow> (\<exists>q. s = k @ q)"
  by (induction s k rule: startsWith.induct) auto

lemma includesStr_iff: "includesStr s k \<longleftrightarrow> (\<exists>p q. s = p @ k @ q)"
proof (induction s)
  case Nil
  show ?case by (auto simp: startsWith_iff)
next
  case (Cons x xs)
  show ?case
  proof
    assume "includesStr (x # xs) k"
    then consider "startsWith (x # xs) k" | "includesStr xs k" by auto
    then show "\<exists>p q. x # xs = p @ k @ q"
    proof cases
      case 1
      then obtain q where "x # xs = k @ q" by (auto simp: startsWith_iff)
      then have "x # xs = [] @ k @ q" by simp
      then show ?thesis by blast
    next
      case 2
      then obtain p q where "xs = p @ k @ q" using Cons.IH by blast
      then have "x # xs = (x # p) @ k @ q" by simp
      then show ?thesis by blast
    qed
  next
    assume "\<exists>p q. x # xs = p @ k @ q"
    then obtain p q where pq: "x # xs = p @ k @ q" by blast
    show "includesStr (x # xs) k"
    proof (cases p)
      case Nil
      with pq have "startsWith (x # xs) k" by (auto simp: startsWith_iff)
      then show ?thesis by simp
    next
      case (Cons y ys)
      with pq have "xs = ys @ k @ q" by simp
      then have "includesStr xs k" using Cons.IH by blast
      then show ?thesis by simp
    qed
  qed
qed

lemma toLowerCase_append: "toLowerCase (s @ t) = toLowerCase s @ toLowerCase t"
  by (simp add: toLowerCase_def)

lemma includesStr_toLowerCase:
  assumes "includesStr s k" and "toLowerCase k = k"
  shows "includesStr (toLowerCase s) k"
proof -
  obtain p q where "s = p @ k @ q" using assms(1) by (auto simp: includesStr_iff)
  then have "toLowerCase s = toLowerCase p @ k @ toLowerCase q"
    using assms(2) by (simp add: toLowerCase_append)
  then show ?thesis by (auto simp: includesStr_iff)
qed

lemma hangul_front_lower: "toLowerCase [0xD504, 0xB860, 0xD2B8] = [0xD504, 0xB860, 0xD2B8]"
  by (simp add: toLowerCase_def lowerUnit_def)

lemma isFrontend_hangul:
  assumes "includesStr (filename r) [0xD504, 0xB860, 0xD2B8]
         \<or> includesStr (targetRole r) [0xD504, 0xB860, 0xD2B8]"
  shows "isFrontend r"
  using assms includesStr_toLowerCase [OF _ hangul_front_lower]
  unfolding isFrontend_def lcFilename_def lcTargetRole_def by blast

lemmas detect_defs = isFrontend_def isBackend_def isFullstack_def isData_def isDevOps_def
  lcFilename_def lcTargetRole_def

lemmas eval_defs = uploaded_def ascii_def toLowerCase_def lowerUnit_def

lemma sameLetter_lower: "sameLetter a b \<Longrightarrow> lowerUnit a = lowerUnit b"
proof -
  have up: "\<And>c :: 16 word. 0x41 \<le> c \<Longrightarrow> c \<le> 0x5A \<Longrightarrow>
      lowerUnit c = [c + 0x20] \<and> lowerUnit (c + 0x20) = [c + 0x20]"
  proof -
    fix c :: "16 word"
    assume c: "0x41 \<le> c" "c \<le> 0x5A"
    then have "\<not> c + 0x20 \<le> 0x5A" "c + 0x20 \<noteq> 0x212A" "c + 0x20 \<noteq> 0x0130"
      by (simp_all add: word_le_nat_alt unat_word_ariths word_unat_eq_iff)
    with c show "lowerUnit c = [c + 0x20] \<and> lowerUnit (c + 0x20) = [c + 0x20]"
      by (simp add: lowerUnit_def)
  qed
  assume "sameLetter a b"
  then consider "a = b" | "0x41 \<le> a \<and> a \<le> 0x5A \<and> b = a + 0x20"
    | "0x41 \<le> b \<and> b \<le> 0x5A \<and> a = b + 0x20"
    by (auto simp: sameLetter_def)
  then show ?thesis
  proof cases
    case 1 then show ?thesis by simp
  next
    case 2 then show ?thesis using up [of a] by simp
  next
    case 3 then show ?thesis using up [of b] by simp
  qed
qed

lemma caseVariant_lower: "caseVariant s t \<Longrightarrow> toLowerCase s = toLowerCase t"
  unfolding caseVariant_def toLowerCase_def
  by (induction rule: list_all2_induct) (simp_all add: sameLetter_lower)


lemma classify_same_lowercase:
  assumes "toLowerCase (filename r) = toLowerCase (filename r')"
    and "toLowerCase (targetRole r) = toLowerCase (targetRole r')"
  shows "classify r = classify r'"
  using assms by (simp add: classify_def detect_defs)

lemma getRoleKeywords_classify:
  "getRoleKeywords r =
    (case classify r of
       Frontend \<Rightarrow> [ascii ''React'', ascii ''TypeScript'', ascii ''Next.js'', ascii ''CSS'',
         ascii ''JavaScript'', ascii ''HTML'']
     | Backend \<Rightarrow> [ascii ''Node.js'', ascii ''Python'', ascii ''SQL'', ascii ''API'',
         ascii ''Docker'', ascii ''AWS'']
     | Fullstack \<Rightarrow> [ascii ''React'', ascii ''Node.js'', ascii ''TypeScript'',
         ascii ''PostgreSQL'', ascii ''Docker'']
     | Data \<Rightarrow> [ascii ''Python'', ascii ''SQL'', ascii ''Pandas'', ascii ''ML'',
         [0xB370, 0xC774, 0xD130, 0xBD84, 0xC11D], ascii ''Tableau'']
     | DevOps \<Rightarrow> [ascii ''Docker'', ascii ''Kubernetes'', ascii ''AWS'', ascii ''CI/CD'',
         ascii ''Terraform'', ascii ''Linux'']
     | General \<Rightarrow> [[0xD611, 0xC5C5], [0xBB38, 0xC81C, 0xD574, 0xACB0],
         [0xCEE4, 0xBBA4, 0xB2C8, 0xCF00, 0xC774, 0xC158], [0xAE30, 0xD68D], [0xBD84, 0xC11D]])"
  by (simp add: getRoleKeywords_def classify_def)

lemma getWritingTips_classify:
  "getWritingTips r =
    (case classify r of
       Frontend \<Rightarrow> frontendTips r
     | Backend \<Rightarrow> backendTips r
     | Fullstack \<Rightarrow> fullstackTips r
     | Data \<Rightarrow> dataTips r
     | DevOps \<Rightarrow> generalTips r
     | General \<Rightarrow> generalTips r)"
  by (simp add: getWritingTips_def classify_def)

text \<open>
  Claim C2. The category is one of the six, and it is the branch that both chains of the
  page take: \<^verbatim>\<open>getRoleKeywords\<close> returns the keyword list of the category and
  \<^verbatim>\<open>getWritingTips\<close> the tips of the category, those of \<open>General\<close> for \<open>DevOps\<close>. Two
  resumes whose file names and target roles are equal up to the case of their letters get
  the same category. The first test that holds, in the order frontend, backend, full
  stack, data, DevOps, decides, and when none holds the category is \<open>General\<close>. In
  particular a resume whose file name or target role contains the Hangul key of the
  frontend test is \<open>Frontend\<close> even when the Hangul key of the backend test occurs too.
\<close>

theorem classify_priority:
  "classify r \<in> {Frontend, Backend, Fullstack, Data, DevOps, General}
   \<and> getRoleKeywords r =
      (case classify r of
         Frontend \<Rightarrow> [ascii ''React'', ascii ''TypeScript'', ascii ''Next.js'', ascii ''CSS'',
           ascii ''JavaScript'', ascii ''HTML'']
       | Backend \<Rightarrow> [ascii ''Node.js'', ascii ''Python'', ascii ''SQL'', ascii ''API'',
           ascii ''Docker'', ascii ''AWS'']
       | Fullstack \<Rightarrow> [ascii ''React'', ascii ''Node.js'', ascii ''TypeScript'',
           ascii ''PostgreSQL'', ascii ''Docker'']
       | Data \<Rightarrow> [ascii ''Python'', ascii ''SQL'', ascii ''Pandas'', ascii ''ML'',
           [0xB370, 0xC774, 0xD130, 0xBD84, 0xC11D], ascii ''Tableau'']
       | DevOps \<Rightarrow> [ascii ''Docker'', ascii ''Kubernetes'', ascii ''AWS'', ascii ''CI/CD'',
           ascii ''Terraform'', ascii ''Linux'']
       | General \<Rightarrow> [[0xD611, 0xC5C5], [0xBB38, 0xC81C, 0xD574, 0xACB0],
           [0xCEE4, 0xBBA4, 0xB2C8, 0xCF00, 0xC774, 0xC158], [0xAE30, 0xD68D],
           [0xBD84, 0xC11D]])
   \<and> getWritingTips r =
      (case classify r of
         Frontend \<Rightarrow> frontendTips r
       | Backend \<Rightarrow> backendTips r
       | Fullstack \<Rightarrow> fullstackTips r
       | Data \<Rightarrow> dataTips r
       | DevOps \<Rightarrow> generalTips r
       | General \<Rightarrow> generalTips r)
   \<and> (caseVariant (filename r) (filename r') \<and> caseVariant (targetRole r) (targetRole r')
      \<longrightarrow> classify r = classify r')
   \<and> (isFrontend r \<longrightarrow> classify r = Frontend)
   \<and> (\<not> isFrontend r \<and> isBackend r \<longrightarrow> classify r = Backend)
   \<and> (\<not> isFrontend r \<and> \<not> isBackend r \<and> isFullstack r \<longrightarrow> classify r = Fullstack)
   \<and> (\<not> isFrontend r \<and> \<not> isBackend r \<and> \<not> isFullstack r \<and> isData r
      \<longrightarrow> classify r = Data)
   \<and> (\<not> isFrontend r \<and> \<not> isBackend r \<and> \<not> isFullstack r \<and> \<not> isData r \<and> isDevOps r
      \<longrightarrow> classify r = DevOps)
   \<and> (\<not> isFrontend r \<and> \<not> isBackend r \<and> \<not> isFullstack r \<and> \<not> isData r \<and> \<not> isDevOps r
      \<longrightarrow> classify r = General)
   \<and> ((includesStr (filename r) [0xD504, 0xB860, 0xD2B8]
         \<or> includesStr (targetRole r) [0xD504, 0xB860, 0xD2B8])
        \<and> (includesStr (filename r) [0xBC31, 0xC5D4, 0xB4DC]
         \<or> includesStr (targetRole r) [0xBC31, 0xC5D4, 0xB4DC])
      \<longrightarrow> classify r = Frontend)"
proof (intro conjI impI)
  show "classify r \<in> {Frontend, Backend, Fullstack, Data, DevOps, General}"
    by (cases "classify r") simp_all
next
  assume "caseVariant (filename r) (filename r') \<and> caseVariant (targetRole r) (targetRole r')"
  then show "classify r = classify r'"
    using classify_same_lowercase caseVariant_lower by blast
next
  assume "(includesStr (filename r) [0xD504, 0xB860, 0xD2B8]
         \<or> includesStr (targetRole r) [0xD504, 0xB860, 0xD2B8])
        \<and> (includesStr (filename r) [0xBC31, 0xC5D4, 0xB4DC]
         \<or> includesStr (targetRole r) [0xBC31, 0xC5D4, 0xB4DC])"
  then have "isFrontend r" using isFrontend_hangul [of r] by blast
  then show "classify r = Frontend" by (simp add: classify_def)
qed (simp_all add: classify_def getRoleKeywords_classify getWritingTips_classify)

theorem classify_priority_witness:
  "classify bothKeys = Frontend
   \<and> caseVariant (ascii ''CV.PDF'') (ascii ''cv.pdf'')
   \<and> caseVariant (ascii ''BACKEND Developer'') (ascii ''backend developer'')
   \<and> classify (uploaded (ascii ''CV.PDF'') (ascii ''BACKEND Developer'')) = Backend
   \<and> classify (uploaded (ascii ''cv.pdf'') (ascii ''backend developer'')) = Backend
   \<and> classify kelvinResume = Backend
   \<and> classify (uploaded (ascii ''cv.pdf'') (ascii ''Designer'')) = General
   \<and> getRoleKeywords (uploaded (ascii ''cv.pdf'') (ascii ''backend developer''))
      = [ascii ''Node.js'', ascii ''Python'', ascii ''SQL'', ascii ''API'', ascii ''Docker'',
         ascii ''AWS'']
   \<and> getWritingTips (uploaded (ascii ''cv.pdf'') (ascii ''backend developer''))
      = backendTips (uploaded (ascii ''cv.pdf'') (ascii ''backend developer''))"
proof -
  let ?U = "uploaded (ascii ''CV.PDF'') (ascii ''BACKEND Developer'')"
  let ?L = "uploaded (ascii ''cv.pdf'') (ascii ''backend developer'')"
  let ?G = "uploaded (ascii ''cv.pdf'') (ascii ''Designer'')"
  have h1: "includesStr (filename bothKeys) [0xD504, 0xB860, 0xD2B8]"
      "includesStr (filename bothKeys) [0xBC31, 0xC5D4, 0xB4DC]"
    by (simp_all add: bothKeys_def eval_defs)
  have h2: "caseVariant (ascii ''CV.PDF'') (ascii ''cv.pdf'')"
      "caseVariant (ascii ''BACKEND Developer'') (ascii ''backend developer'')"
    by (simp_all add: caseVariant_def sameLetter_def ascii_def)
  then have h2': "caseVariant (filename ?U) (filename ?L)"
      "caseVariant (targetRole ?U) (targetRole ?L)"
    by (simp_all add: uploaded_def)
  have h3: "\<not> isFrontend ?L" "isBackend ?L"
    by (simp_all add: detect_defs eval_defs)
  have h4: "\<not> isFrontend ?G" "\<not> isBackend ?G" "\<not> isFullstack ?G" "\<not> isData ?G"
      "\<not> isDevOps ?G"
    by (simp_all add: detect_defs eval_defs)
  have h5: "\<not> isFrontend kelvinResume" "isBackend kelvinResume"
    by (simp_all add: kelvinResume_def detect_defs eval_defs)
  have c1: "classify bothKeys = Frontend"
    using classify_priority [of bothKeys bothKeys] h1 by blast
  have c2: "classify ?L = Backend"
    using classify_priority [of ?L ?L] h3 by blast
  have c3: "classify ?U = classify ?L"
    using classify_priority [of ?U ?L] h2' by blast
  have c4: "classify ?G = General"
    using classify_priority [of ?G ?G] h4 by blast
  have c5: "classify kelvinResume = Backend"
    using classify_priority [of kelvinResume kelvinResume] h5 by blast
  have k: "getRoleKeywords ?L
      = [ascii ''Node.js'', ascii ''Python'', ascii ''SQL'', ascii ''API'', ascii ''Docker'',
         ascii ''AWS'']"
      "getWritingTips ?L = backendTips ?L"
    using classify_priority [of ?L ?L] c2 by simp_all
  show ?thesis using h2 c1 c2 c3 c4 c5 k by simp
qed

section \<open>Keywords and writing tips\<close>

lemma writingTips_eq: "writingTips (generateAnalysisResult rnd r) = getWritingTips r"
  by (simp add: generateAnalysisResult_def Let_def)

lemma keywords_five:
  "\<exists>k1 k2 k3 k4 k5 rest. getRoleKeywords r = k1 # k2 # k3 # k4 # k5 # rest"
  by (simp add: getRoleKeywords_def)

lemma keyword_feedback_eq:
  "feedback (keyword_match (sections (generateAnalysisResult rnd r))) =
     targetRole r @ keywordsLead @ join (ascii '', '') (slice 0 3 (getRoleKeywords r))
     @ keywordsPresent @ join (ascii '', '') (slice 3 5 (getRoleKeywords r))
     @ keywordsRecommended"
  by (simp add: generateAnalysisResult_def Let_def)

lemma slices_of_five:
  "slice 0 3 (k1 # k2 # k3 # k4 # k5 # rest) = [k1, k2, k3]"
  "slice 3 5 (k1 # k2 # k3 # k4 # k5 # rest) = [k4, k5]"
  by (simp_all add: slice_def)

text \<open>
  Claim C9. The keyword list of every resume has at least five entries, and the feedback
  of the \<^verbatim>\<open>keyword_match\<close> section is the target role, the lead-in, the first three
  keywords joined by a comma and a space, the sentence saying that they are present, the
  fourth and fifth keyword joined the same way, and the sentence recommending to add them.
\<close>

theorem keyword_feedback_cites:
  "\<exists>k1 k2 k3 k4 k5 rest.
     getRoleKeywords r = k1 # k2 # k3 # k4 # k5 # rest
     \<and> feedback (keyword_match (sections (generateAnalysisResult rnd r))) =
         targetRole r @ keywordsLead @ k1 @ ascii '', '' @ k2 @ ascii '', '' @ k3
         @ keywordsPresent @ k4 @ ascii '', '' @ k5 @ keywordsRecommended"
proof -
  obtain k1 k2 k3 k4 k5 rest where ks: "getRoleKeywords r = k1 # k2 # k3 # k4 # k5 # rest"
    using keywords_five by blast
  have "feedback (keyword_match (sections (generateAnalysisResult rnd r))) =
         targetRole r @ keywordsLead @ k1 @ ascii '', '' @ k2 @ ascii '', '' @ k3
         @ keywordsPresent @ k4 @ ascii '', '' @ k5 @ keywordsRecommended"
    by (simp add: keyword_feedback_eq ks slices_of_five)
  with ks show ?thesis by blast
qed

lemma tips_length:
  "length (frontendTips r) = 3" "length (backendTips r) = 3" "length (fullstackTips r) = 3"
  "length (dataTips r) = 3" "length (generalTips r) = 3"
  by (simp_all add: frontendTips_def backendTips_def fullstackTips_def dataTips_def
      generalTips_def)

lemma tips_same_role:
  assumes "targetRole r = targetRole r'"
  shows "frontendTips r = frontendTips r'" "backendTips r = backendTips r'"
    "generalTips r = generalTips r'"
  using assms by (simp_all add: frontendTips_def backendTips_def generalTips_def)

lemma tips_constant:
  "fullstackTips r = fullstackTips r'" "dataTips r = dataTips r'"
  by (simp_all add: fullstackTips_def dataTips_def)

text \<open>
  Claim C10. A resume that passes the DevOps test and none of the four tests before it
  gets the tips of the last branch of \<^verbatim>\<open>getWritingTips\<close>, the one that a resume
  passing no test gets, while its keyword list is the DevOps list, whose first three and
  next two entries appear in the \<^verbatim>\<open>keyword_match\<close> feedback.
\<close>

theorem devops_gets_general_tips:
  assumes "\<not> isFrontend r" and "\<not> isBackend r" and "\<not> isFullstack r" and "\<not> isData r"
    and "isDevOps r"
  shows "writingTips (generateAnalysisResult rnd r) = generalTips r
    \<and> getRoleKeywords r =
        [ascii ''Docker'', ascii ''Kubernetes'', ascii ''AWS'', ascii ''CI/CD'',
         ascii ''Terraform'', ascii ''Linux'']
    \<and> feedback (keyword_match (sections (generateAnalysisResult rnd r))) =
        targetRole r @ keywordsLead @ ascii ''Docker, Kubernetes, AWS'' @ keywordsPresent
        @ ascii ''CI/CD, Terraform'' @ keywordsRecommended
    \<and> (classify g = General \<longrightarrow> writingTips (generateAnalysisResult rnd' g) = generalTips g)"
proof -
  have ks: "getRoleKeywords r =
        [ascii ''Docker'', ascii ''Kubernetes'', ascii ''AWS'', ascii ''CI/CD'',
         ascii ''Terraform'', ascii ''Linux'']"
    using assms by (simp add: getRoleKeywords_def)
  have tips: "writingTips (generateAnalysisResult rnd r) = generalTips r"
    using assms by (simp add: writingTips_eq getWritingTips_def)
  have fb: "feedback (keyword_match (sections (generateAnalysisResult rnd r))) =
        targetRole r @ keywordsLead @ ascii ''Docker, Kubernetes, AWS'' @ keywordsPresent
        @ ascii ''CI/CD, Terraform'' @ keywordsRecommended"
    unfolding keyword_feedback_eq ks by (simp add: slice_def ascii_def)
  have gen: "classify g = General \<longrightarrow>
        writingTips (generateAnalysisResult rnd' g) = generalTips g"
    by (simp add: writingTips_eq getWritingTips_classify)
  show ?thesis using ks tips fb gen by blast
qed

theorem devops_gets_general_tips_witness:
  "\<not> isFrontend devopsResume \<and> \<not> isBackend devopsResume \<and> \<not> isFullstack devopsResume
   \<and> \<not> isData devopsResume \<and> isDevOps devopsResume
   \<and> writingTips (generateAnalysisResult halves devopsResume) = generalTips devopsResume
   \<and> getRoleKeywords devopsResume =
        [ascii ''Docker'', ascii ''Kubernetes'', ascii ''AWS'', ascii ''CI/CD'',
         ascii ''Terraform'', ascii ''Linux'']
   \<and> classify (uploaded (ascii ''cv.pdf'') (ascii ''Designer'')) = General
   \<and> writingTips (generateAnalysisResult halves (uploaded (ascii ''cv.pdf'') (ascii ''Designer'')))
      = generalTips (uploaded (ascii ''cv.pdf'') (ascii ''Designer''))"
proof -
  let ?G = "uploaded (ascii ''cv.pdf'') (ascii ''Designer'')"
  have h: "\<not> isFrontend devopsResume" "\<not> isBackend devopsResume"
      "\<not> isFullstack devopsResume" "\<not> isData devopsResume" "isDevOps devopsResume"
    by (simp_all add: devopsResume_def detect_defs eval_defs)
  have g: "classify ?G = General"
    by (simp add: classify_def detect_defs eval_defs)
  show ?thesis
    using h g devops_gets_general_tips [OF h, of halves ?G halves] by blast
qed

text \<open>
  Claim C4, as the code has it. There are always exactly three writing tips. They do
  not depend on the random numbers or on the file name beyond the category, and they are
  determined by the category together with the target role: resumes of the same category
  and target role get the same tips, and in the categories \<open>Fullstack\<close> and \<open>Data\<close> the
  category alone decides.
\<close>

theorem writingTips_by_category_and_role:
  "length (writingTips (generateAnalysisResult rnd r)) = 3
   \<and> (classify r = classify r' \<and> targetRole r = targetRole r'
      \<longrightarrow> writingTips (generateAnalysisResult rnd r) = writingTips (generateAnalysisResult rnd' r'))
   \<and> (classify r = classify r' \<and> (classify r = Fullstack \<or> classify r = Data)
      \<longrightarrow> writingTips (generateAnalysisResult rnd r) = writingTips (generateAnalysisResult rnd' r'))"
proof (intro conjI impI)
  show "length (writingTips (generateAnalysisResult rnd r)) = 3"
    by (cases "classify r") (simp_all add: writingTips_eq getWritingTips_classify tips_length)
next
  assume a: "classify r = classify r' \<and> targetRole r = targetRole r'"
  then have "getWritingTips r = getWritingTips r'"
    using tips_same_role [of r r'] tips_constant [of r r']
    by (cases "classify r") (simp_all add: getWritingTips_classify)
  then show "writingTips (generateAnalysisResult rnd r) = writingTips (generateAnalysisResult rnd' r')"
    by (simp add: writingTips_eq)
next
  assume a: "classify r = classify r' \<and> (classify r = Fullstack \<or> classify r = Data)"
  then have "getWritingTips r = getWritingTips r'"
    using tips_constant [of r r'] by (auto simp: getWritingTips_classify)
  then show "writingTips (generateAnalysisResult rnd r) = writingTips (generateAnalysisResult rnd' r')"
    by (simp add: writingTips_eq)
qed

theorem writingTips_by_category_and_role_witness:
  "classify (uploaded (ascii ''front.pdf'') (ascii ''Engineer'')) = Frontend
   \<and> classify (uploaded (ascii ''my_frontend_cv.pdf'') (ascii ''Engineer'')) = Frontend
   \<and> length (writingTips (generateAnalysisResult halves
        (uploaded (ascii ''front.pdf'') (ascii ''Engineer'')))) = 3
   \<and> writingTips (generateAnalysisResult halves (uploaded (ascii ''front.pdf'') (ascii ''Engineer'')))
     = writingTips (generateAnalysisResult lowBase
        (uploaded (ascii ''my_frontend_cv.pdf'') (ascii ''Engineer'')))
   \<and> classify resume2 = Fullstack
   \<and> classify (uploaded (ascii ''full.pdf'') (ascii ''Engineer'')) = Fullstack
   \<and> writingTips (generateAnalysisResult halves resume2)
     = writingTips (generateAnalysisResult lowBase (uploaded (ascii ''full.pdf'') (ascii ''Engineer'')))"
proof -
  let ?A = "uploaded (ascii ''front.pdf'') (ascii ''Engineer'')"
  let ?B = "uploaded (ascii ''my_frontend_cv.pdf'') (ascii ''Engineer'')"
  let ?F = "uploaded (ascii ''full.pdf'') (ascii ''Engineer'')"
  have c: "classify ?A = Frontend" "classify ?B = Frontend"
      "classify resume2 = Fullstack" "classify ?F = Fullstack"
    by (simp_all add: classify_def resume2_def detect_defs eval_defs)
  have t: "targetRole ?A = targetRole ?B"
    by (simp add: uploaded_def)
  show ?thesis
    using c t writingTips_by_category_and_role [of halves ?A ?B lowBase]
      writingTips_by_category_and_role [of halves resume2 ?F lowBase]
    by metis
qed

text \<open>
  Claim C4 as stated fails: two resumes with the same file name, both of category
  \<open>Frontend\<close>, one with target role \<^verbatim>\<open>react\<close> and one with \<^verbatim>\<open>front\<close>, get different
  tips under the same random numbers, since the reason of the first frontend tip quotes
  the target role.
\<close>

theorem writingTips_by_category_counterexample:
  "classify reactResume = classify frontResume
   \<and> filename reactResume = filename frontResume
   \<and> writingTips (generateAnalysisResult halves reactResume)
     \<noteq> writingTips (generateAnalysisResult halves frontResume)"
proof -
  have f: "isFrontend reactResume" "isFrontend frontResume"
    by (simp_all add: reactResume_def frontResume_def detect_defs eval_defs)
  have "reason (hd (frontendTips reactResume)) \<noteq> reason (hd (frontendTips frontResume))"
    by (simp add: frontendTips_def reactResume_def frontResume_def eval_defs)
  then have "frontendTips reactResume \<noteq> frontendTips frontResume" by auto
  then have "writingTips (generateAnalysisResult halves reactResume)
     \<noteq> writingTips (generateAnalysisResult halves frontResume)"
    using f by (simp add: writingTips_eq getWritingTips_def)
  moreover have "classify reactResume = classify frontResume"
    using f by (simp add: classify_def)
  moreover have "filename reactResume = filename frontResume"
    by (simp add: reactResume_def frontResume_def uploaded_def)
  ultimately show ?thesis by blast
qed

section \<open>The analysis run\<close>

lemmas page_eval = initialPage_def resume1_def resume2_def ascii_def

lemma ticks8: "ticksBeforeTimeout = 8"
  by (simp add: ticksBeforeTimeout_def)

lemma runCallbacks_append:
  "runCallbacks (xs @ ys) s =
     runCallbacks xs s @ runCallbacks ys (snd (last ((None, s) # runCallbacks xs s)))"
  by (induction xs arbitrary: s) simp_all

lemma ticks_frame:
  "c \<in> set (runCallbacks (map Tick ds) s) \<Longrightarrow>
     fst c = None \<and> isAnalyzing (snd c) = isAnalyzing s \<and> resumes (snd c) = resumes s
     \<and> analysisResults (snd c) = analysisResults s
     \<and> selectedResume (snd c) = selectedResume s"
proof (induction ds arbitrary: s)
  case Nil
  then show ?case by simp
next
  case (Cons d ds)
  from Cons.prems consider "c = (None, analysisTick d s)"
    | "c \<in> set (runCallbacks (map Tick ds) (analysisTick d s))"
    by auto
  then show ?case
  proof cases
    case 1
    then show ?thesis by (simp add: analysisTick_def)
  next
    case 2
    from Cons.IH [OF 2] show ?thesis by (simp add: analysisTick_def)
  qed
qed

lemma progressTick_step:
  assumes "0 \<le> d" and "d \<le> 7" and "p < 95"
  shows "p + 3 \<le> progressTick d p \<and> progressTick d p \<le> p + 10"
  using assms by (simp add: progressTick_def)

lemma tick_progress:
  assumes "\<forall>d \<in> set ds. 0 \<le> d \<and> d \<le> 7"
    and "analysisProgress s + 10 * int (length ds) \<le> 104"
  shows "sorted_wrt (<)
      (analysisProgress s # map analysisProgress (map snd (runCallbacks (map Tick ds) s)))
    \<and> (\<forall>p \<in> set (map analysisProgress (map snd (runCallbacks (map Tick ds) s))).
          p \<le> analysisProgress s + 10 * int (length ds))"
  using assms
proof (induction ds arbitrary: s)
  case Nil
  then show ?case by simp
next
  case (Cons d ds)
  let ?s' = "analysisTick d s"
  have lt: "analysisProgress s < 95" using Cons.prems(2) by simp
  have d: "0 \<le> d" "d \<le> 7" using Cons.prems(1) by simp_all
  have p': "analysisProgress ?s' = progressTick d (analysisProgress s)"
    by (simp add: analysisTick_def)
  have step: "analysisProgress s + 3 \<le> analysisProgress ?s'"
      "analysisProgress ?s' \<le> analysisProgress s + 10"
    using progressTick_step [OF d lt] p' by simp_all
  have "analysisProgress ?s' + 10 * int (length ds) \<le> 104"
    using step Cons.prems(2) by simp
  moreover have "\<forall>d \<in> set ds. 0 \<le> d \<and> d \<le> 7" using Cons.prems(1) by simp
  ultimately have ih: "sorted_wrt (<)
        (analysisProgress ?s' # map analysisProgress (map snd (runCallbacks (map Tick ds) ?s')))"
      "\<forall>p \<in> set (map analysisProgress (map snd (runCallbacks (map Tick ds) ?s'))).
          p \<le> analysisProgress ?s' + 10 * int (length ds)"
    using Cons.IH [of ?s'] by blast+
  have a: "\<forall>p \<in> set (map analysisProgress (map snd (runCallbacks (map Tick ds) ?s'))).
      analysisProgress s < p"
    using ih(1) step by auto
  show ?case
    using ih a step by auto
qed

lemma analysisComplete_missing:
  assumes "find (\<lambda>r. resume_id r = i) closure = None"
  shows "analysisComplete closure rnd i s =
    (Some (Error (ascii ''Resume not found'')), s\<lparr>isAnalyzing := False, analysisProgress := 0\<rparr>)"
  using assms by (simp add: analysisComplete_def analysisFinally_def)

lemma analysisComplete_found:
  assumes "find (\<lambda>r. resume_id r = i) closure = Some t"
  shows "analysisComplete closure rnd i s =
    (None,
     s\<lparr>analysisProgress := 100,
       analysisResults := (analysisResults s)(i \<mapsto> generateAnalysisResult rnd t),
       resumes :=
         map (\<lambda>r. if resume_id r = i
                  then r\<lparr>hasAnalysis := True,
                         resume_score := Some (overall_score (generateAnalysisResult rnd t))\<rparr>
                  else r)
             (resumes s)\<rparr>)"
  using assms by (simp add: analysisComplete_def Let_def)

lemma analysisComplete_error:
  "fst (analysisComplete closure rnd i s) =
    (if find (\<lambda>r. resume_id r = i) closure = None
     then Some (Error (ascii ''Resume not found'')) else None)"
  by (cases "find (\<lambda>r. resume_id r = i) closure")
    (simp_all add: analysisComplete_missing analysisComplete_found)

lemma soloRun_found:
  assumes "find (\<lambda>r. resume_id r = i) (resumes s) = Some t"
  shows "soloRun rnd ticks i s =
    (let ticking = runCallbacks (map Tick (take ticksBeforeTimeout ticks)) (analysisBegin s);
         completed = snd (analysisComplete (resumes s) rnd i
                       (snd (last ((None, analysisBegin s) # ticking))))
     in (None, analysisBegin s) # ticking
        @ [(None, completed), (None, analysisFinally completed)])"
  using assms
  by (simp add: soloRun_def handleStartAnalysis_def runCallbacks_append Let_def
      analysisComplete_found)

lemma soloRun_missing:
  assumes "find (\<lambda>r. resume_id r = i) (resumes s) = None"
  shows "soloRun rnd ticks i s =
    (let ticking = runCallbacks (map Tick (take ticksBeforeTimeout ticks)) (analysisBegin s)
     in (None, analysisBegin s) # ticking
        @ [(Some (Error (ascii ''Resume not found'')),
            (snd (last ((None, analysisBegin s) # ticking)))
              \<lparr>isAnalyzing := False, analysisProgress := 0\<rparr>)])"
  using assms
  by (simp add: soloRun_def handleStartAnalysis_def runCallbacks_append Let_def
      analysisComplete_missing)

lemma start_button_found:
  assumes "reportSection s = StartButton i"
  shows "\<not> isAnalyzing s \<and> (\<exists>t. find (\<lambda>r. resume_id r = i) (resumes s) = Some t)"
proof -
  from assms obtain r where r: "selectedResumeData s = Some r" "\<not> hasAnalysis r"
      "\<not> isAnalyzing s" "resume_id r = i"
    by (auto simp: reportSection_def split: option.splits if_splits)
  from r(1) obtain j where j: "selectedResume s = Some j"
      "find (\<lambda>r. resume_id r = j) (resumes s) = Some r"
    by (auto simp: selectedResumeData_def split: option.splits)
  from j(2) have "resume_id r = j" by (auto simp: find_Some_iff)
  with r(4) j(2) have "find (\<lambda>r. resume_id r = i) (resumes s) = Some r" by simp
  with r(3) show ?thesis by blast
qed

lemma runProgress_found:
  assumes "find (\<lambda>r. resume_id r = i) (resumes s) = Some t"
  shows "runProgress (soloRun rnd ticks i s) =
     0 # map analysisProgress
           (map snd (runCallbacks (map Tick (take ticksBeforeTimeout ticks)) (analysisBegin s)))
       @ [100]"
proof -
  let ?b = "analysisBegin s"
  let ?T = "runCallbacks (map Tick (take ticksBeforeTimeout ticks)) ?b"
  let ?cur = "snd (last ((None, ?b) # ?T))"
  let ?completed = "snd (analysisComplete (resumes s) rnd i ?cur)"
  have b: "isAnalyzing ?b" "analysisProgress ?b = 0"
    by (simp_all add: analysisBegin_def)
  have t: "\<forall>c \<in> set ?T. isAnalyzing (snd c)"
    using ticks_frame [of _ "take ticksBeforeTimeout ticks" ?b] b by simp
  then have cur: "isAnalyzing ?cur"
    using b by (cases "?T = []") simp_all
  have c: "isAnalyzing ?completed" "analysisProgress ?completed = 100"
    using cur by (simp_all add: analysisComplete_found [OF assms])
  have "filter isAnalyzing (map snd ((None, ?b) # ?T
          @ [(None, ?completed), (None, analysisFinally ?completed)]))
      = ?b # map snd ?T @ [?completed]"
    using t b c by (simp add: analysisFinally_def filter_id_conv)
  then show ?thesis
    using b c by (simp add: runProgress_def soloRun_found [OF assms] Let_def)
qed

lemma analysisStep_bracket:
  "analysisStep p =
    (if p < 20 then stepParsing else if p < 40 then stepAts else if p < 60 then stepImpact
     else if p < 80 then stepKeywords else stepTips)"
  by (simp add: analysisStep_def)

lemma eightTicks_history:
  "runCallbacks (map Tick (take ticksBeforeTimeout eightTicks)) (s\<lparr>isAnalyzing := True, analysisProgress := 0\<rparr>)
    = map (\<lambda>p. (None, s\<lparr>isAnalyzing := True, analysisProgress := p\<rparr>))
        [7, 14, 21, 28, 35, 42, 49, 56]"
  by (simp add: eightTicks_def ticks8 analysisTick_def progressTick_def)

lemma find_second:
  "find (\<lambda>r. resume_id r = ascii ''2'') (resumes secondSelected) = Some resume2"
  by (simp add: secondSelected_def initialPage_def resume1_def resume2_def ascii_def)

lemma find_missing: "find (\<lambda>r. resume_id r = missingId) (resumes initialPage) = None"
  by (simp add: initialPage_def resume1_def resume2_def missingId_def ascii_def)

lemma second_button: "reportSection secondSelected = StartButton (ascii ''2'')"
proof -
  have "selectedResumeData secondSelected = Some resume2"
    using find_second by (simp add: selectedResumeData_def secondSelected_def)
  then show ?thesis
    by (simp add: reportSection_def) (simp add: secondSelected_def initialPage_def resume2_def)
qed

text \<open>
  Claim C7. Take a call that the page makes from its start button, with the random
  values of the interval callbacks from 0 to 7, and the progress values of the committed
  states in which the analysis is in progress. The first value is 0, the values increase
  strictly, the last one is 100, every value lies between 0 and 100, and the step line
  shown for a value is the one of its bracket: parsing below 20, ATS check from 20,
  impact analysis from 40, keyword analysis from 60, suggestions from 80.
\<close>

theorem progress_run:
  assumes "reportSection s = StartButton i"
    and "\<forall>d \<in> set ticks. 0 \<le> d \<and> d \<le> 7"
  shows "hd (runProgress (soloRun rnd ticks i s)) = 0
    \<and> sorted_wrt (<) (runProgress (soloRun rnd ticks i s))
    \<and> last (runProgress (soloRun rnd ticks i s)) = 100
    \<and> (\<forall>p \<in> set (runProgress (soloRun rnd ticks i s)).
          0 \<le> p \<and> p \<le> 100
          \<and> analysisStep p =
              (if p < 20 then stepParsing else if p < 40 then stepAts
               else if p < 60 then stepImpact else if p < 80 then stepKeywords
               else stepTips))"
proof -
  obtain t where found: "find (\<lambda>r. resume_id r = i) (resumes s) = Some t"
    using start_button_found [OF assms(1)] by blast
  let ?b = "analysisBegin s"
  let ?ds = "take ticksBeforeTimeout ticks"
  let ?ps = "map analysisProgress (map snd (runCallbacks (map Tick ?ds) ?b))"
  have b0: "analysisProgress ?b = 0" by (simp add: analysisBegin_def)
  have ds: "\<forall>d \<in> set ?ds. 0 \<le> d \<and> d \<le> 7"
    using assms(2) by (meson in_set_takeD)
  have len: "int (length ?ds) \<le> 8"
    by (simp add: ticks8)
  then have "analysisProgress ?b + 10 * int (length ?ds) \<le> 104" using b0 by simp
  from tick_progress [OF ds this]
  have sorted: "sorted_wrt (<) (0 # ?ps)"
    and upper: "\<forall>p \<in> set ?ps. p \<le> 10 * int (length ?ds)"
    using b0 by simp_all
  have le80: "\<forall>p \<in> set ?ps. p \<le> 80" using upper len by fastforce
  have pos: "\<forall>p \<in> set ?ps. 0 < p" using sorted by simp
  have run: "runProgress (soloRun rnd ticks i s) = (0 # ?ps) @ [100]"
    by (simp add: runProgress_found [OF found])
  have "sorted_wrt (<) ((0 # ?ps) @ [100])"
    unfolding sorted_wrt_append using sorted le80 by fastforce
  moreover have "\<forall>p \<in> set ((0 # ?ps) @ [100]). 0 \<le> p \<and> p \<le> 100"
    using le80 pos by fastforce
  ultimately show ?thesis
    unfolding run by (simp add: analysisStep_bracket)
qed

theorem progress_run_witness:
  "reportSection secondSelected = StartButton (ascii ''2'')
   \<and> list_all (\<lambda>d. 0 \<le> d \<and> d \<le> 7) eightTicks
   \<and> runProgress (soloRun halves eightTicks (ascii ''2'') secondSelected)
     = [0, 7, 14, 21, 28, 35, 42, 49, 56, 100]
   \<and> analysisStep 56 = stepImpact \<and> analysisStep 100 = stepTips"
proof -
  have h: "\<forall>d \<in> set eightTicks. 0 \<le> d \<and> d \<le> 7"
    by (simp add: eightTicks_def)
  have r: "runProgress (soloRun halves eightTicks (ascii ''2'') secondSelected)
     = [0, 7, 14, 21, 28, 35, 42, 49, 56, 100]"
    unfolding runProgress_found [OF find_second] analysisBegin_def eightTicks_history
    by simp
  show ?thesis
    using progress_run [OF second_button h, of halves] r h second_button
    by (simp add: list_all_iff)
qed

lemma step_frame_missing:
  assumes "find (\<lambda>r. resume_id r = i) (resumes s) = None"
    and "c \<in> set (handleStartAnalysis rnd ticks i s)"
  shows "resumes (snd (step c s')) = resumes s'
    \<and> analysisResults (snd (step c s')) = analysisResults s'
    \<and> selectedResume (snd (step c s')) = selectedResume s'
    \<and> (fst (step c s') = None \<or> c = Complete (resumes s) rnd i)"
proof -
  from assms consider "c = Begin" | d where "c = Tick d" | "c = Complete (resumes s) rnd i"
    by (auto simp: handleStartAnalysis_def)
  then show ?thesis
  proof cases
    case 1 then show ?thesis by (simp add: analysisBegin_def)
  next
    case 2 then show ?thesis by (simp add: analysisTick_def)
  next
    case 3 then show ?thesis by (simp add: analysisComplete_missing [OF assms(1)])
  qed
qed

lemma soloRun_missing_shape:
  assumes "find (\<lambda>r. resume_id r = i) (resumes s) = None"
  shows "butlast (soloRun rnd ticks i s)
      = (None, analysisBegin s)
        # runCallbacks (map Tick (take ticksBeforeTimeout ticks)) (analysisBegin s)"
    and "fst (last (soloRun rnd ticks i s)) = Some (Error (ascii ''Resume not found''))"
    and "snd (last (soloRun rnd ticks i s))
      = (snd (last ((None, analysisBegin s)
           # runCallbacks (map Tick (take ticksBeforeTimeout ticks)) (analysisBegin s))))
        \<lparr>isAnalyzing := False, analysisProgress := 0\<rparr>"
  by (simp_all add: soloRun_missing [OF assms] Let_def butlast_append)

text \<open>
  Claim C6, as the code has it. When the id is not that of a resume in the list that the
  handler closed over, the pieces of the call are the call itself, the interval callbacks
  and the piece after the timer of 3500 ms. The call itself sets \<^verbatim>\<open>isAnalyzing\<close> and
  puts the progress at 0; only the last piece fails, with
  \<^verbatim>\<open>Error('Resume not found')\<close>, which the handler catches, and it commits
  \<^verbatim>\<open>isAnalyzing\<close> false and the progress 0. In whatever state a piece runs, it leaves
  the resumes and the stored results as they are. Run with no other piece in between,
  every committed state before the last has no error and has the analysis in progress,
  and the last state is the state before the request with \<^verbatim>\<open>isAnalyzing\<close> false and
  the progress 0.
\<close>

theorem missing_resume_run:
  assumes "find (\<lambda>r. resume_id r = i) (resumes s) = None"
  shows "handleStartAnalysis rnd ticks i s
      = Begin # map Tick (take ticksBeforeTimeout ticks) @ [Complete (resumes s) rnd i]
    \<and> step Begin s' = (None, s'\<lparr>isAnalyzing := True, analysisProgress := 0\<rparr>)
    \<and> step (Complete (resumes s) rnd i) s'
      = (Some (Error (ascii ''Resume not found'')),
         s'\<lparr>isAnalyzing := False, analysisProgress := 0\<rparr>)
    \<and> (\<forall>c \<in> set (handleStartAnalysis rnd ticks i s).
          resumes (snd (step c s')) = resumes s'
          \<and> analysisResults (snd (step c s')) = analysisResults s'
          \<and> (fst (step c s') = None \<or> c = Complete (resumes s) rnd i))
    \<and> (\<forall>c \<in> set (butlast (soloRun rnd ticks i s)). fst c = None \<and> isAnalyzing (snd c))
    \<and> fst (last (soloRun rnd ticks i s)) = Some (Error (ascii ''Resume not found''))
    \<and> snd (last (soloRun rnd ticks i s)) = s\<lparr>isAnalyzing := False, analysisProgress := 0\<rparr>"
proof -
  let ?b = "analysisBegin s"
  let ?T = "runCallbacks (map Tick (take ticksBeforeTimeout ticks)) ?b"
  let ?cur = "snd (last ((None, ?b) # ?T))"
  have a: "handleStartAnalysis rnd ticks i s
      = Begin # map Tick (take ticksBeforeTimeout ticks) @ [Complete (resumes s) rnd i]"
    using assms by (simp add: handleStartAnalysis_def)
  have b: "step Begin s' = (None, s'\<lparr>isAnalyzing := True, analysisProgress := 0\<rparr>)"
    by (simp add: analysisBegin_def)
  have c: "step (Complete (resumes s) rnd i) s'
      = (Some (Error (ascii ''Resume not found'')),
         s'\<lparr>isAnalyzing := False, analysisProgress := 0\<rparr>)"
    by (simp add: analysisComplete_missing [OF assms])
  have d: "\<forall>c \<in> set (handleStartAnalysis rnd ticks i s).
          resumes (snd (step c s')) = resumes s'
          \<and> analysisResults (snd (step c s')) = analysisResults s'
          \<and> (fst (step c s') = None \<or> c = Complete (resumes s) rnd i)"
    using step_frame_missing [OF assms] by blast
  have tf: "\<forall>c \<in> set ?T. fst c = None \<and> isAnalyzing (snd c) \<and> resumes (snd c) = resumes s
      \<and> analysisResults (snd c) = analysisResults s
      \<and> selectedResume (snd c) = selectedResume s"
    using ticks_frame [of _ "take ticksBeforeTimeout ticks" ?b]
    by (simp add: analysisBegin_def)
  have e: "\<forall>c \<in> set (butlast (soloRun rnd ticks i s)). fst c = None \<and> isAnalyzing (snd c)"
    unfolding soloRun_missing_shape(1) [OF assms] using tf by (simp add: analysisBegin_def)
  have cur: "resumes ?cur = resumes s \<and> analysisResults ?cur = analysisResults s
      \<and> selectedResume ?cur = selectedResume s"
    using tf by (cases "?T = []") (simp_all add: analysisBegin_def)
  have g: "snd (last (soloRun rnd ticks i s)) = s\<lparr>isAnalyzing := False, analysisProgress := 0\<rparr>"
    unfolding soloRun_missing_shape(3) [OF assms] using cur by simp
  show ?thesis
    using a b c d e g soloRun_missing_shape(2) [OF assms] by blast
qed

theorem missing_resume_run_witness:
  "find (\<lambda>r. resume_id r = missingId) (resumes initialPage) = None
   \<and> fst (last (soloRun halves eightTicks missingId initialPage))
      = Some (Error (ascii ''Resume not found''))
   \<and> snd (last (soloRun halves eightTicks missingId initialPage)) = initialPage"
proof -
  have "initialPage\<lparr>isAnalyzing := False, analysisProgress := 0\<rparr> = initialPage"
    by (simp add: initialPage_def)
  then show ?thesis
    using find_missing missing_resume_run [OF find_missing, of halves eightTicks] by simp
qed

text \<open>
  Claim C6 as stated fails: the request for an id that no resume has commits nine states
  with the analysis in progress, the progress going from 0 to 56, before the state in
  which the error is caught.
\<close>

theorem not_found_before_running_counterexample:
  "map fst (soloRun halves eightTicks missingId initialPage)
      = [None, None, None, None, None, None, None, None, None,
         Some (Error (ascii ''Resume not found''))]
   \<and> map isAnalyzing (map snd (soloRun halves eightTicks missingId initialPage))
      = [True, True, True, True, True, True, True, True, True, False]
   \<and> map analysisProgress (map snd (soloRun halves eightTicks missingId initialPage))
      = [0, 7, 14, 21, 28, 35, 42, 49, 56, 0]"
  unfolding soloRun_missing [OF find_missing] analysisBegin_def eightTicks_history
  by simp

lemma reportSection_running:
  assumes "isAnalyzing s"
  shows "reportSection s \<noteq> StartButton j"
  using assms by (simp add: reportSection_def split: option.splits)

lemma step_error:
  assumes "c \<in> set (handleStartAnalysis rnd ticks i s)"
  shows "fst (step c s') = None \<or> fst (step c s') = Some (Error (ascii ''Resume not found''))"
    and "find (\<lambda>r. resume_id r = i) (resumes s) \<noteq> None \<Longrightarrow> fst (step c s') = None"
proof -
  from assms consider "c = Begin" | d where "c = Tick d" | "c = Complete (resumes s) rnd i"
    | "c = Finally"
    by (auto simp: handleStartAnalysis_def split: option.splits)
  then show "fst (step c s') = None \<or> fst (step c s') = Some (Error (ascii ''Resume not found''))"
    by cases (simp_all add: analysisComplete_error)
  assume "find (\<lambda>r. resume_id r = i) (resumes s) \<noteq> None"
  with assms consider "c = Begin" | d where "c = Tick d" | "c = Complete (resumes s) rnd i"
    | "c = Finally"
    by (auto simp: handleStartAnalysis_def split: option.splits)
  then show "fst (step c s') = None"
    using \<open>find (\<lambda>r. resume_id r = i) (resumes s) \<noteq> None\<close>
    by cases (simp_all add: analysisComplete_error)
qed

text \<open>
  Claim C5, as the code has it. While \<^verbatim>\<open>isAnalyzing\<close> is true the panel renders no
  start button, so the page makes no second request. \<^verbatim>\<open>handleStartAnalysis\<close> itself
  has no guard for an analysis in progress: called in such a state it raises no error and
  commits that state with the progress set back to 0. No piece of a call raises another
  error than \<^verbatim>\<open>Error('Resume not found')\<close>, and none raises an error when the id is
  that of a resume in the list at the time of the call.
\<close>

theorem second_request_not_rejected:
  assumes "isAnalyzing s"
  shows "(\<forall>j. reportSection s \<noteq> StartButton j)
    \<and> step Begin s = (None, s\<lparr>analysisProgress := 0\<rparr>)
    \<and> (\<forall>c \<in> set (handleStartAnalysis rnd ticks i s).
          fst (step c s') = None
          \<or> fst (step c s') = Some (Error (ascii ''Resume not found'')))
    \<and> (find (\<lambda>r. resume_id r = i) (resumes s) \<noteq> None
        \<longrightarrow> (\<forall>c \<in> set (handleStartAnalysis rnd ticks i s). fst (step c s') = None))"
proof -
  have a: "\<forall>j. reportSection s \<noteq> StartButton j"
    using reportSection_running [OF assms] by blast
  have b: "step Begin s = (None, s\<lparr>analysisProgress := 0\<rparr>)"
    using assms by (simp add: analysisBegin_def)
  show ?thesis
    using a b step_error [of _ rnd ticks i s s'] by blast
qed

lemma find_running:
  "find (\<lambda>r. resume_id r = ascii ''2'') (resumes runningPage) = Some resume2"
  using find_second by (simp add: runningPage_def)

theorem second_request_not_rejected_witness:
  "isAnalyzing runningPage
   \<and> reportSection runningPage = AnalyzingShown 14 stepParsing
   \<and> step Begin runningPage = (None, runningPage\<lparr>analysisProgress := 0\<rparr>)
   \<and> analysisProgress runningPage = 14
   \<and> fst (step (Complete (resumes runningPage) halves (ascii ''2'')) runningPage) = None"
proof -
  have r: "isAnalyzing runningPage" "analysisProgress runningPage = 14"
    by (simp_all add: runningPage_def)
  have sel: "selectedResumeData runningPage = Some resume2"
    using find_running by (simp add: selectedResumeData_def runningPage_def secondSelected_def)
  have v: "reportSection runningPage = AnalyzingShown 14 stepParsing"
    by (simp add: reportSection_def sel analysisStep_bracket r) (simp add: resume2_def)
  have f: "find (\<lambda>r. resume_id r = ascii ''2'') (resumes runningPage) \<noteq> None"
    using find_running by simp
  have m: "Complete (resumes runningPage) halves (ascii ''2'')
      \<in> set (handleStartAnalysis halves eightTicks (ascii ''2'') runningPage)"
    by (simp add: handleStartAnalysis_def)
  show ?thesis
    using r v f m
      second_request_not_rejected [OF r(1), of halves eightTicks "ascii ''2''" runningPage]
    by blast
qed

text \<open>
  Claim C5 as stated fails. In the two overlapping calls for the second resume, the
  second call is made in a state with the analysis in progress at 14 percent; it commits
  that state with the progress at 0, no piece of either call raises an error, and the
  second call goes on to its own timer and \<^verbatim>\<open>finally\<close> block.
\<close>

theorem second_request_rejected_counterexample:
  "snd (runCallbacks overlappingCalls secondSelected ! 2) = runningPage
   \<and> snd (runCallbacks overlappingCalls secondSelected ! 3)
      = runningPage\<lparr>analysisProgress := 0\<rparr>
   \<and> map fst (runCallbacks overlappingCalls secondSelected)
      = [None, None, None, None, None, None, None, None, None, None, None, None, None,
         None, None, None, None, None, None, None, None]
   \<and> map analysisProgress (map snd (runCallbacks overlappingCalls secondSelected))
      = [0, 7, 14, 0, 7, 14, 21, 28, 35, 42, 49, 56, 63, 70, 77, 84, 100, 100, 0, 100, 0]
   \<and> map isAnalyzing (map snd (runCallbacks overlappingCalls secondSelected))
      = [True, True, True, True, True, True, True, True, True, True, True, True, True,
         True, True, True, True, True, False, False, False]"
  by (simp add: overlappingCalls_def analysisBegin_def analysisTick_def progressTick_def
      analysisFinally_def analysisComplete_found [OF find_second] runningPage_def)

section \<open>Deleting a resume\<close>

lemma find_neq_id: "find (\<lambda>r. resume_id r \<noteq> i) xs = Some r \<Longrightarrow> resume_id r \<noteq> i"
  by (induction xs) (auto split: if_splits)

text \<open>
  Claim C8, as the code has it. A confirmed deletion removes every resume with the id
  from the list and leaves a selection other than that id; \<^verbatim>\<open>analysisResults\<close> is not
  touched, so a result stored for the id stays in the state, where no selection reaches
  it. A declined deletion changes nothing.
\<close>

theorem delete_keeps_results:
  "(\<forall>r \<in> set (resumes (handleDeleteResume True i s)). resume_id r \<noteq> i)
   \<and> selectedResume (handleDeleteResume True i s) \<noteq> Some i
   \<and> analysisResults (handleDeleteResume True i s) = analysisResults s
   \<and> handleDeleteResume False i s = s"
  by (auto simp: handleDeleteResume_def split: option.splits dest: find_neq_id)

theorem delete_keeps_results_witness:
  "map resume_id (resumes (handleDeleteResume True (ascii ''1'') analysedPage)) = [ascii ''2'']
   \<and> selectedResume (handleDeleteResume True (ascii ''1'') analysedPage) = Some (ascii ''2'')
   \<and> analysisResults (handleDeleteResume True (ascii ''1'') analysedPage)
      = analysisResults analysedPage"
  using delete_keeps_results [of "ascii ''1''" analysedPage]
  by (simp add: handleDeleteResume_def analysedPage_def page_eval)

text \<open>
  Claim C8 as stated fails: after the first resume of the page is deleted, the result
  stored under its id is still in \<^verbatim>\<open>analysisResults\<close>.
\<close>

theorem delete_removes_report_counterexample:
  "map resume_id (resumes analysedPage) = [ascii ''1'', ascii ''2'']
   \<and> map resume_id (resumes (handleDeleteResume True (ascii ''1'') analysedPage)) = [ascii ''2'']
   \<and> analysisResults (handleDeleteResume True (ascii ''1'') analysedPage) (ascii ''1'')
      = Some (generateAnalysisResult halves resume1)"
  by (simp add: handleDeleteResume_def analysedPage_def page_eval)

end
